theory Spec2Isabelle
  imports Complex_Main
begin

chapter \<open>The wallet and payment core of the Cortex bot\<close>

text \<open>
  A shallow embedding of the payment path of the bot: the fee estimator, the balance
  check and the payment preview of \<^verbatim>\<open>core/ai_handler.py\<close>, the wallet
  operations of \<^verbatim>\<open>database.py\<close>, the wallet import of
  \<^verbatim>\<open>services/wallet_manager.py\<close> and the payment execution and its
  callback handler of \<^verbatim>\<open>core/bot_handlers.py\<close>.
\<close>

section \<open>Python floats\<close>

text \<open>
  A Python \<^verbatim>\<open>float\<close> is an IEEE-754 binary64 number. A finite one is kept as the
  rational it denotes; the two infinities and NaN are constructors of their own. The sign
  of zero is not kept: no operation below tells \<^verbatim>\<open>-0.0\<close> from
  \<^verbatim>\<open>0.0\<close>.
\<close>

datatype pyfloat = Finite rat | PosInf | NegInf | NaN

text \<open>\<^verbatim>\<open>int.bit_length\<close>, for the position of the leading bit.\<close>

function bit_length :: "int \<Rightarrow> int" where
  "bit_length n = (if n \<le> 0 then 0 else 1 + bit_length (n div 2))"
  by pat_completeness auto
termination
  by (relation "measure nat") auto

declare bit_length.simps [simp del]

definition pow2 :: "int \<Rightarrow> rat" where
  "pow2 e = (if 0 \<le> e then 2 ^ nat e else 1 / 2 ^ nat (- e))"

text \<open>For \<open>0 < x\<close>, the exponent \<open>e\<close> with \<open>2 ^ e \<le> x < 2 ^ (e + 1)\<close>.\<close>

definition ilog2 :: "rat \<Rightarrow> int" where
  "ilog2 x = (case quotient_of x of (p, q) \<Rightarrow>
     (let e0 = bit_length p - bit_length q
      in if pow2 e0 \<le> x then e0 else e0 - 1))"

definition round_half_even :: "rat \<Rightarrow> int" where
  "round_half_even x =
     (let f = \<lfloor>x\<rfloor>; d = x - of_int f
      in if d < 1 / 2 then f
         else if 1 / 2 < d then f + 1
         else if even f then f else f + 1)"

text \<open>
  Rounding of an exact value to the nearest binary64 number, ties to even: 53 significant
  bits, gradual underflow below \<open>2 ^ -1022\<close>, overflow to an infinity from
  \<open>2 ^ 1024\<close> on. Every float operation of the program is the exact operation
  followed by this rounding, and a decimal literal of the source denotes the rounding of
  its decimal value.
\<close>

definition fl_round :: "rat \<Rightarrow> pyfloat" where
  "fl_round x =
     (if x = 0 then Finite 0
      else let e = max (ilog2 \<bar>x\<bar>) (- 1022);
               ulp = pow2 (e - 52);
               m = round_half_even (x / ulp)
           in if 1024 \<le> e \<or> (e = 1023 \<and> \<bar>m\<bar> = 2 ^ 53)
              then (if 0 < x then PosInf else NegInf)
              else Finite (of_int m * ulp))"

text \<open>Python's \<^verbatim>\<open>+\<close> on floats.\<close>

fun fadd :: "pyfloat \<Rightarrow> pyfloat \<Rightarrow> pyfloat" where
  "fadd (Finite a) (Finite b) = fl_round (a + b)"
| "fadd NaN _ = NaN"
| "fadd _ NaN = NaN"
| "fadd PosInf NegInf = NaN"
| "fadd NegInf PosInf = NaN"
| "fadd PosInf _ = PosInf"
| "fadd _ PosInf = PosInf"
| "fadd NegInf _ = NegInf"
| "fadd _ NegInf = NegInf"

fun fneg :: "pyfloat \<Rightarrow> pyfloat" where
  "fneg (Finite a) = Finite (- a)"
| "fneg PosInf = NegInf"
| "fneg NegInf = PosInf"
| "fneg NaN = NaN"

text \<open>Python's \<^verbatim>\<open>-\<close> on floats.\<close>

definition fsub :: "pyfloat \<Rightarrow> pyfloat \<Rightarrow> pyfloat" where
  "fsub x y = fadd x (fneg y)"

text \<open>
  Python's \<^verbatim>\<open><\<close> and \<^verbatim>\<open><=\<close> on floats: every comparison with NaN
  is false.
\<close>

fun flt :: "pyfloat \<Rightarrow> pyfloat \<Rightarrow> bool" where
  "flt (Finite a) (Finite b) = (a < b)"
| "flt NaN _ = False"
| "flt _ NaN = False"
| "flt _ NegInf = False"
| "flt PosInf _ = False"
| "flt NegInf _ = True"
| "flt _ PosInf = True"

fun fle :: "pyfloat \<Rightarrow> pyfloat \<Rightarrow> bool" where
  "fle (Finite a) (Finite b) = (a \<le> b)"
| "fle NaN _ = False"
| "fle _ NaN = False"
| "fle NegInf _ = True"
| "fle _ PosInf = True"
| "fle _ NegInf = False"
| "fle PosInf _ = False"

definition is_nan :: "pyfloat \<Rightarrow> bool" where
  "is_nan x = (x = NaN)"

section \<open>Configuration (config.py)\<close>

definition BASE_TRANSACTION_FEE :: pyfloat where
  "BASE_TRANSACTION_FEE = fl_round (5 / 1000000)"

definition RENT_EXEMPTION_FEE :: pyfloat where
  "RENT_EXEMPTION_FEE = fl_round (89088 / 100000000)"

definition ATA_CREATION_FEE :: pyfloat where
  "ATA_CREATION_FEE = fl_round (204 / 100000)"

definition MINIMUM_SOL_TRANSFER_NEW_USER :: pyfloat where
  "MINIMUM_SOL_TRANSFER_NEW_USER = fl_round (1 / 1000)"

section \<open>Fee estimation (core/ai\_handler.py)\<close>

text \<open>
  \<^verbatim>\<open>_estimate_network_fee(needs_rent_exemption, token)\<close>. The body adds floats
  only, which never raises, so the \<^verbatim>\<open>except\<close> branch is not reachable.
\<close>

definition estimate_network_fee :: "bool \<Rightarrow> string \<Rightarrow> pyfloat" where
  "estimate_network_fee needs_rent_exemption token =
     (let base_fee = BASE_TRANSACTION_FEE;
          total_fee = (if needs_rent_exemption then fadd base_fee RENT_EXEMPTION_FEE
                       else base_fee)
      in if token \<in> set [''USDC'', ''USDT''] \<and> needs_rent_exemption
         then fadd total_fee ATA_CREATION_FEE
         else total_fee)"

section \<open>Strings and the Python library\<close>

text \<open>
  A Python string is kept as the list of the bytes of its UTF-8 encoding. An ASCII
  character is one byte, and that byte occurs nowhere inside the encoding of another
  character, so the comparison with an ASCII literal, \<^verbatim>\<open>lstrip('@')\<close> and
  \<^verbatim>\<open>split('_')\<close> are the same operations on the bytes. The methods that rest
  on the Unicode tables (\<^verbatim>\<open>str.lower\<close>, \<^verbatim>\<open>str.upper\<close>,
  \<^verbatim>\<open>str.strip\<close>), the number of characters \<^verbatim>\<open>len\<close> and the
  conversion \<^verbatim>\<open>float\<close> (\<open>None\<close> when it raises
  \<^verbatim>\<open>ValueError\<close>) are Python's own: they are taken as they are, as the
  fields of a record that every environment below extends.
\<close>

record python =
  py_lower :: "string \<Rightarrow> string"
  py_upper :: "string \<Rightarrow> string"
  py_strip :: "string \<Rightarrow> string"
  py_len :: "string \<Rightarrow> nat"
  py_float :: "string \<Rightarrow> pyfloat option"

text \<open>\<^verbatim>\<open>username.lstrip('@').lower()\<close>, the normal form of a handle.\<close>

definition normalize_username :: "'a python_scheme \<Rightarrow> string \<Rightarrow> string" where
  "normalize_username py u = py_lower py (dropWhile (\<lambda>c. c = CHR ''@'') u)"

text \<open>Truth values of optional fields: \<^verbatim>\<open>None\<close>, \<^verbatim>\<open>0\<close> and the empty string are false.\<close>

definition truthy_int :: "int option \<Rightarrow> bool" where
  "truthy_int v = (case v of None \<Rightarrow> False | Some i \<Rightarrow> i \<noteq> 0)"

definition truthy_str :: "string option \<Rightarrow> bool" where
  "truthy_str v = (case v of None \<Rightarrow> False | Some s \<Rightarrow> s \<noteq> [])"

section \<open>Key encryption (database.py, services/encryption.py)\<close>

text \<open>
  Modelled from the spec: the Fernet cipher and the PBKDF2-HMAC-SHA256 key derivation of
  the \<^verbatim>\<open>cryptography\<close> package, which the repository calls and does not
  contain. Following sections 4.1 and 8 of the specification and the documentation of the
  package, the derivation is deterministic and gives different ciphers for different
  salts, encryption draws a fresh initialisation vector, and a token opens under the
  cipher that made it and under no other (\<^verbatim>\<open>InvalidToken\<close>). A cipher is
  kept as the id it was derived from (with the one master key
  \<^verbatim>\<open>ENCRYPTION_KEY\<close> of the configuration), a token as the id of its cipher,
  its initialisation vector and its plaintext. The id is optional because a caller may
  pass \<^verbatim>\<open>None\<close>, whose string \<^verbatim>\<open>str(None)\<close> salts a cipher
  like any other.
\<close>

datatype token = Token (token_id: "int option") (token_iv: nat) (token_plain: string)

datatype py_error = InvalidToken | KeyError | IndexError | TypeError | DuplicateKeyError

datatype fernet = Fernet "int option"

fun fernet_encrypt :: "fernet \<Rightarrow> nat \<Rightarrow> string \<Rightarrow> token" where
  "fernet_encrypt (Fernet i) iv plaintext = Token i iv plaintext"

fun fernet_decrypt :: "fernet \<Rightarrow> token \<Rightarrow> py_error + string" where
  "fernet_decrypt (Fernet i) t = (if token_id t = i then Inr (token_plain t) else Inl InvalidToken)"

text \<open>
  The code of \<^verbatim>\<open>Database\<close>: \<^verbatim>\<open>derive_key_from_telegram_id\<close>
  salts the derivation with the SHA-256 of \<^verbatim>\<open>str(telegram_id)\<close>;
  \<^verbatim>\<open>encrypt_private_key\<close> and \<^verbatim>\<open>decrypt_private_key\<close> derive
  the cipher of the id they are given and apply it.
\<close>

definition derive_key_from_telegram_id :: "int option \<Rightarrow> fernet" where
  "derive_key_from_telegram_id telegram_id = Fernet telegram_id"

definition encrypt_private_key :: "nat \<Rightarrow> string \<Rightarrow> int option \<Rightarrow> token" where
  "encrypt_private_key iv private_key telegram_id =
     (let user_cipher = derive_key_from_telegram_id telegram_id
      in fernet_encrypt user_cipher iv private_key)"

definition decrypt_private_key :: "token \<Rightarrow> int option \<Rightarrow> py_error + string" where
  "decrypt_private_key encrypted_key telegram_id =
     (let user_cipher = derive_key_from_telegram_id telegram_id
      in fernet_decrypt user_cipher encrypted_key)"

text \<open>
  The code of \<^verbatim>\<open>EncryptionManager\<close> in services/encryption.py, which
  derives from the same master key in the same way; its two methods catch an exception
  only to log it and raise it again.
\<close>

definition derive_key_from_id :: "int \<Rightarrow> fernet" where
  "derive_key_from_id user_id = Fernet (Some user_id)"

definition manager_encrypt_private_key :: "nat \<Rightarrow> string \<Rightarrow> int \<Rightarrow> token" where
  "manager_encrypt_private_key iv private_key user_id =
     (let cipher = derive_key_from_id user_id
      in fernet_encrypt cipher iv private_key)"

definition manager_decrypt_private_key :: "token \<Rightarrow> int \<Rightarrow> py_error + string" where
  "manager_decrypt_private_key encrypted_key user_id =
     (let cipher = derive_key_from_id user_id
      in fernet_decrypt cipher encrypted_key)"

section \<open>The users collection (database.py)\<close>

type_synonym timestamp = nat

record notification =
  n_type :: string
  n_amount :: pyfloat
  n_token :: string
  n_sender_username :: "string option"
  n_sender_wallet :: "string option"
  n_signature :: string
  n_timestamp :: timestamp

record transaction =
  tx_signature :: string
  tx_type :: string
  tx_sender_username :: "string option"
  tx_sender_wallet :: "string option"
  tx_recipient_username :: string
  tx_recipient_wallet :: "string option"
  tx_amount :: pyfloat
  tx_token :: string
  tx_network_fee :: pyfloat
  tx_timestamp :: timestamp
  tx_status :: string

text \<open>
  A user document, with the fields the wallet and payment path reads or writes. A field
  that is absent or \<^verbatim>\<open>None\<close> is \<open>None\<close>.
\<close>

record user_doc =
  telegram_id :: "int option"
  username :: "string option"
  wallet_address :: "string option"
  encrypted_private_key :: "token option"
  wallet_type :: "string option"
  wallet_created_at :: "timestamp option"
  last_updated :: "timestamp option"
  pending_wallet_address :: "string option"
  pending_private_key :: "token option"
  pending_notifications :: "notification list"
  transactions :: "transaction list"
  total_payments_sent :: int
  total_payments_received :: int

text \<open>
  The collection is the list of its documents in insertion order.
  \<^verbatim>\<open>find_one\<close> returns the first document that matches,
  \<^verbatim>\<open>update_one\<close> changes the first document that matches and reports
  whether one matched and whether it changed, \<^verbatim>\<open>insert_one\<close> appends.
  The store is taken to answer every call. \<^verbatim>\<open>_create_indexes\<close> declares a
  unique index on \<^verbatim>\<open>telegram_id\<close> (not sparse: \<^verbatim>\<open>None\<close> is a
  key like any other) and a unique sparse index on \<^verbatim>\<open>username\<close>: a write
  that would give two documents the same key raises
  \<^verbatim>\<open>DuplicateKeyError\<close>. The two writes of the wallet and payment path that
  set such a key are \<open>insert_one\<close> and the update of a claim.
\<close>

type_synonym collection = "user_doc list"

definition find_one :: "(user_doc \<Rightarrow> bool) \<Rightarrow> collection \<Rightarrow> user_doc option" where
  "find_one p c = find p c"

fun update_first :: "(user_doc \<Rightarrow> bool) \<Rightarrow> (user_doc \<Rightarrow> user_doc) \<Rightarrow> collection \<Rightarrow> collection" where
  "update_first p f [] = []"
| "update_first p f (d # ds) = (if p d then f d # ds else d # update_first p f ds)"

record update_result =
  matched_count :: nat
  modified_count :: nat

definition update_one ::
  "(user_doc \<Rightarrow> bool) \<Rightarrow> (user_doc \<Rightarrow> user_doc) \<Rightarrow> collection \<Rightarrow> update_result \<times> collection" where
  "update_one p f c =
     (case find p c of
        None \<Rightarrow> (\<lparr>matched_count = 0, modified_count = 0\<rparr>, c)
      | Some d \<Rightarrow> (\<lparr>matched_count = 1, modified_count = (if f d = d then 0 else 1)\<rparr>,
                   update_first p f c))"

definition insert_one :: "user_doc \<Rightarrow> collection \<Rightarrow> py_error + collection" where
  "insert_one d c =
     (if list_ex (\<lambda>e. telegram_id e = telegram_id d
                       \<or> (username d \<noteq> None \<and> username e = username d)) c
      then Inl DuplicateKeyError
      else Inr (c @ [d]))"

definition get_user :: "collection \<Rightarrow> int \<Rightarrow> user_doc option" where
  "get_user db tid = find_one (\<lambda>d. telegram_id d = Some tid) db"

definition get_user_by_username :: "'a python_scheme \<Rightarrow> collection \<Rightarrow> string \<Rightarrow> user_doc option" where
  "get_user_by_username py db uname =
     find_one (\<lambda>d. username d = Some (normalize_username py uname)) db"

text \<open>
  \<^verbatim>\<open>save_wallet(telegram_id, wallet_address, private_key, wallet_type)\<close>: the
  update sets the wallet fields whatever they held; the result is false only when no
  document has the id. \<open>iv\<close> is the randomness of the encryption and \<open>now\<close>
  the clock (\<^verbatim>\<open>datetime.now()\<close>).
\<close>

definition save_wallet ::
  "nat \<Rightarrow> timestamp \<Rightarrow> collection \<Rightarrow> int \<Rightarrow> string \<Rightarrow> string \<Rightarrow> string \<Rightarrow> bool \<times> collection" where
  "save_wallet iv now db tid address private_key wtype =
     (let encrypted_key = encrypt_private_key iv private_key (Some tid);
          (result, db') = update_one (\<lambda>d. telegram_id d = Some tid)
             (\<lambda>d. d\<lparr>wallet_address := Some address,
                      encrypted_private_key := Some encrypted_key,
                      wallet_type := Some wtype,
                      wallet_created_at := Some now,
                      last_updated := Some now\<rparr>) db
      in if matched_count result = 0 then (False, db')
         else if 0 < modified_count result then (True, db')
         else (True, db'))"

text \<open>
  \<^verbatim>\<open>get_decrypted_private_key(telegram_id)\<close>: \<^verbatim>\<open>None\<close> when there is no
  user or no stored key; a failing decryption raises.
\<close>

definition get_decrypted_private_key :: "collection \<Rightarrow> int \<Rightarrow> py_error + string option" where
  "get_decrypted_private_key db tid =
     (case get_user db tid of
        None \<Rightarrow> Inr None
      | Some user \<Rightarrow>
          (case encrypted_private_key user of
             None \<Rightarrow> Inr None
           | Some k \<Rightarrow> (case decrypt_private_key k (Some tid) of
                          Inl e \<Rightarrow> Inl e
                        | Inr pk \<Rightarrow> Inr (Some pk))))"

text \<open>
  \<^verbatim>\<open>claim_pending_wallet(telegram_id, username)\<close>. The function talks to the
  store twice: it reads the pending document (\<^verbatim>\<open>find_one\<close>) and later
  writes the claim (\<^verbatim>\<open>update_one\<close>, with the filter ``this handle and no
  id yet''). \<open>claim_read\<close> is the function up to the write and \<open>claim_write\<close>
  is the write and the return, so that the store operations of two callers can be
  interleaved; \<open>claim_pending_wallet\<close> is one after the other.
  \<open>username_hash\<close> stands for
  \<^verbatim>\<open>int(hashlib.sha256(s.encode()).hexdigest(), 16) % (10 ** 8)\<close>. The update
  sets \<^verbatim>\<open>telegram_id\<close>: when it matches a document and another document
  already has the id, the unique index refuses it, and the exception is caught and
  returned as a failure.
\<close>

datatype claim_result =
    ClaimFailed
  | ClaimError py_error
  | Claimed string string "notification list"

definition claim_read ::
  "'a python_scheme \<Rightarrow> (string \<Rightarrow> int) \<Rightarrow> collection \<Rightarrow> string
     \<Rightarrow> claim_result + (string \<times> string \<times> notification list)" where
  "claim_read py username_hash db uname =
     (let normalized_username = normalize_username py uname
      in case find_one (\<lambda>d. username d = Some normalized_username \<and> telegram_id d = None) db of
           None \<Rightarrow> Inl ClaimFailed
         | Some pending \<Rightarrow>
             if \<not> truthy_str (pending_wallet_address pending) then Inl ClaimFailed
             else (case pending_private_key pending of
                     None \<Rightarrow> Inl (ClaimError TypeError)
                   | Some k \<Rightarrow>
                       (case decrypt_private_key k (Some (username_hash normalized_username)) of
                          Inl e \<Rightarrow> Inl (ClaimError e)
                        | Inr private_key \<Rightarrow>
                            Inr (the (pending_wallet_address pending), private_key,
                                 pending_notifications pending))))"

definition claim_write ::
  "'a python_scheme \<Rightarrow> nat \<Rightarrow> timestamp \<Rightarrow> collection \<Rightarrow> int \<Rightarrow> string
     \<Rightarrow> string \<times> string \<times> notification list \<Rightarrow> claim_result \<times> collection" where
  "claim_write py iv now db tid uname pending =
     (case pending of (address, private_key, notifications) \<Rightarrow>
        (let normalized_username = normalize_username py uname;
             encrypted_key = encrypt_private_key iv private_key (Some tid)
         in if find (\<lambda>d. username d = Some normalized_username \<and> telegram_id d = None) db \<noteq> None
               \<and> list_ex (\<lambda>e. telegram_id e = Some tid) db
            then (ClaimError DuplicateKeyError, db)
            else
            (let (result, db') = update_one
                   (\<lambda>d. username d = Some normalized_username \<and> telegram_id d = None)
                   (\<lambda>d. d\<lparr>telegram_id := Some tid,
                            wallet_address := Some address,
                            encrypted_private_key := Some encrypted_key,
                            wallet_type := Some ''auto_created'',
                            wallet_created_at := Some now,
                            last_updated := Some now,
                            pending_wallet_address := None,
                            pending_private_key := None\<rparr>) db
             in (Claimed address private_key notifications, db'))))"

definition claim_pending_wallet ::
  "'a python_scheme \<Rightarrow> (string \<Rightarrow> int) \<Rightarrow> nat \<Rightarrow> timestamp \<Rightarrow> collection \<Rightarrow> int \<Rightarrow> string
     \<Rightarrow> claim_result \<times> collection" where
  "claim_pending_wallet py username_hash iv now db tid uname =
     (case claim_read py username_hash db uname of
        Inl r \<Rightarrow> (r, db)
      | Inr pending \<Rightarrow> claim_write py iv now db tid uname pending)"

section \<open>Balances (services/alchemy\_transfer.py, core/ai\_handler.py)\<close>

text \<open>
  The network, as the balance reads meet it:
  \<^item> \<open>rpc_get_balance\<close>: the lamports that the RPC method
    \<^verbatim>\<open>getBalance\<close> reports for an address, \<open>None\<close> when the response
    holds an error or the request raises;
  \<^item> \<open>assets_by_address\<close>: the token list of the Alchemy Data API for an address,
    \<open>None\<close> when the API key is missing, the status is not 200 or the request raises.
\<close>

text \<open>
  An entry of that token list, as far as \<^verbatim>\<open>_get_wallet_balance\<close> reads it:
  whether it is the native asset (\<^verbatim>\<open>tokenAddress\<close> absent or empty), the
  symbol of its metadata, and the balance that lines 2194 to 2216 read from it
  (\<open>None\<close> when the entry is skipped for missing decimals or when its processing
  raises, which the loop catches entry by entry).
\<close>

record api_token =
  at_native :: bool
  at_symbol :: "string option"
  at_balance :: "pyfloat option"

record chain = python +
  rpc_get_balance :: "string \<Rightarrow> int option"
  assets_by_address :: "string \<Rightarrow> api_token list option"

text \<open>
  \<^verbatim>\<open>alchemy_transfer.get_sol_balance(wallet_address)\<close>: the lamports divided
  by \<open>10 ^ 9\<close> (the true division of two integers is correctly rounded; when it
  overflows the exception is caught), and \<open>0.0\<close> on any failure.
\<close>

definition get_sol_balance :: "'a chain_scheme \<Rightarrow> string \<Rightarrow> pyfloat" where
  "get_sol_balance net address =
     (case rpc_get_balance net address of
        None \<Rightarrow> Finite 0
      | Some lamports \<Rightarrow>
          (case fl_round (of_int lamports / 1000000000) of
             Finite sol_balance \<Rightarrow> Finite sol_balance
           | _ \<Rightarrow> Finite 0))"

text \<open>
  \<^verbatim>\<open>round(x, ndigits)\<close> on a float: the decimal rounding of the exact
  value, ties to even, and then the nearest float.
\<close>

fun py_round :: "pyfloat \<Rightarrow> nat \<Rightarrow> pyfloat" where
  "py_round (Finite q) n = fl_round (of_int (round_half_even (q * 10 ^ n)) / 10 ^ n)"
| "py_round x n = x"

text \<open>
  \<^verbatim>\<open>_get_wallet_balance(wallet_address)\<close>, the part that the payment path
  reads: the list \<^verbatim>\<open>tokens\<close> of the result, \<open>None\<close> for
  \<^verbatim>\<open>success: False\<close>. An entry is kept when its balance is positive; its
  symbol is \<^verbatim>\<open>SOL\<close> for the native asset and the symbol of the metadata
  otherwise (\<^verbatim>\<open>Unknown\<close> when that is missing or empty); its balance is
  rounded to 6 decimals below 1 and to 2 decimals from 1 on. Prices and names are left
  out.
\<close>

record reported_token =
  rt_symbol :: string
  rt_balance :: pyfloat

definition report_token :: "api_token \<Rightarrow> reported_token option" where
  "report_token t =
     (case at_balance t of
        None \<Rightarrow> None
      | Some token_balance \<Rightarrow>
          if \<not> flt (Finite 0) token_balance then None
          else Some \<lparr>rt_symbol =
                        (if at_native t then ''SOL''
                         else (case at_symbol t of
                                 None \<Rightarrow> ''Unknown''
                               | Some symbol \<Rightarrow> if symbol = [] then ''Unknown'' else symbol)),
                     rt_balance =
                        (if flt token_balance (Finite 1) then py_round token_balance 6
                         else py_round token_balance 2)\<rparr>)"

definition get_wallet_balance :: "'a chain_scheme \<Rightarrow> string \<Rightarrow> reported_token list option" where
  "get_wallet_balance net address =
     (case assets_by_address net address of
        None \<Rightarrow> None
      | Some tokens \<Rightarrow> Some (List.map_filter report_token tokens))"

text \<open>
  The dictionary of \<^verbatim>\<open>_get_wallet_balance_alchemy\<close>, which always has the
  three keys \<^verbatim>\<open>SOL\<close>, \<^verbatim>\<open>USDC\<close> and \<^verbatim>\<open>USDT\<close>.
\<close>

record balances =
  bal_SOL :: pyfloat
  bal_USDC :: pyfloat
  bal_USDT :: pyfloat

text \<open>\<^verbatim>\<open>balances.get(token, 0)\<close>\<close>

definition balances_get :: "balances \<Rightarrow> string \<Rightarrow> pyfloat" where
  "balances_get b token =
     (if token = ''SOL'' then bal_SOL b
      else if token = ''USDC'' then bal_USDC b
      else if token = ''USDT'' then bal_USDT b
      else Finite 0)"

text \<open>The body of the loop: an entry whose upper-cased symbol is a key overwrites it.\<close>

definition set_balance :: "'a chain_scheme \<Rightarrow> reported_token \<Rightarrow> balances \<Rightarrow> balances" where
  "set_balance net t b =
     (let symbol = py_upper net (rt_symbol t)
      in if symbol = ''SOL'' then b\<lparr>bal_SOL := rt_balance t\<rparr>
         else if symbol = ''USDC'' then b\<lparr>bal_USDC := rt_balance t\<rparr>
         else if symbol = ''USDT'' then b\<lparr>bal_USDT := rt_balance t\<rparr>
         else b)"

text \<open>
  \<^verbatim>\<open>_get_wallet_balance_alchemy(wallet_address)\<close>: zeros when the read
  fails, else the loop over the reported tokens, starting from zeros.
\<close>

definition get_wallet_balance_alchemy :: "'a chain_scheme \<Rightarrow> string \<Rightarrow> balances" where
  "get_wallet_balance_alchemy net address =
     (case get_wallet_balance net address of
        None \<Rightarrow> \<lparr>bal_SOL = Finite 0, bal_USDC = Finite 0, bal_USDT = Finite 0\<rparr>
      | Some tokens \<Rightarrow>
          fold (set_balance net) tokens
            \<lparr>bal_SOL = Finite 0, bal_USDC = Finite 0, bal_USDT = Finite 0\<rparr>)"

section \<open>Payment preview (core/ai\_handler.py)\<close>

text \<open>Every call to the network is logged, in order.\<close>

datatype net_call =
    GetSolBalance string
  | GetWalletBalance string
  | ExecuteTransfer string "string option" pyfloat
  | GetTransactionStatus string

text \<open>
  The error results, one constructor for each message of the source:
  \<^item> \<open>InvalidAmountFormat\<close>: ``Invalid amount format'';
  \<^item> \<open>AmountNotPositive\<close>: ``Amount must be greater than 0'';
  \<^item> \<open>UnsupportedToken\<close>: ``Unsupported token. Only SOL, USDC, and USDT are supported.'';
  \<^item> \<open>NoWalletFound\<close>: ``No wallet found. Please create or import a wallet first ...'';
  \<^item> \<open>RecipientStatusUnknown\<close>: ``Unable to determine recipient status'';
  \<^item> \<open>MinimumTransferNewUser\<close>: ``Minimum transfer to new users is 0.001 SOL (includes
    rent-exemption fee)'';
  \<^item> \<open>RecipientWalletEmpty\<close>: ``Recipient's wallet is empty or has insufficient balance.
    Minimum transfer is 0.001 SOL (covers Solana's rent-exemption requirement of ~0.00089
    SOL)'';
  \<^item> \<open>WalletNotFound\<close>: ``Wallet not found'';
  \<^item> \<open>InsufficientBalance\<close>: ``Insufficient balance. You have ... SOL, need ... SOL
    (includes ... SOL network fee)'';
  \<^item> \<open>InsufficientToken\<close>: ``Insufficient USDC. You have ..., need ...'';
  \<^item> \<open>InsufficientSolForGas\<close>: ``Insufficient SOL for gas. You have ... SOL, need ...
    SOL for transaction fee'';
  \<^item> \<open>RecipientInsufficientBalance\<close>: ``Recipient's wallet has insufficient balance (...
    SOL). Minimum transfer is 0.001 SOL to cover rent-exemption. Please try again with a
    higher amount.'';
  \<^item> \<open>FailedToCreateWallet\<close>: ``Failed to create wallet for recipient'';
  \<^item> \<open>TransferFailed\<close>: the error of the transfer service, or ``Transaction failed'';
  \<^item> \<open>FailedOnBlockchain\<close>: ``Transaction failed on blockchain'';
  \<^item> \<open>ConfirmationTimeout\<close>: ``Transaction confirmation timeout (check Solscan for
    status)'';
  \<^item> \<open>Raised\<close>: the text of an exception caught by the outer handler.
\<close>

datatype pay_error =
    InvalidAmountFormat
  | AmountNotPositive
  | UnsupportedToken
  | NoWalletFound
  | RecipientStatusUnknown
  | MinimumTransferNewUser
  | RecipientWalletEmpty
  | WalletNotFound
  | InsufficientBalance pyfloat pyfloat pyfloat
  | InsufficientToken string pyfloat pyfloat
  | InsufficientSolForGas pyfloat pyfloat
  | RecipientInsufficientBalance pyfloat
  | FailedToCreateWallet
  | TransferFailed string
  | FailedOnBlockchain
  | ConfirmationTimeout
  | Raised py_error

text \<open>The errors whose message says that the funds of the sender are insufficient.\<close>

fun is_insufficient_funds :: "pay_error \<Rightarrow> bool" where
  "is_insufficient_funds (InsufficientBalance _ _ _) = True"
| "is_insufficient_funds (InsufficientToken _ _ _) = True"
| "is_insufficient_funds (InsufficientSolForGas _ _) = True"
| "is_insufficient_funds _ = False"

text \<open>
  \<^verbatim>\<open>_check_payment_balance(telegram_id, amount, token, network_fee)\<close>. The
  balances are floats and nothing in the body raises on floats, so the
  \<^verbatim>\<open>except\<close> branch (``Failed to check balance'') is left out. The one
  network call is the request of \<^verbatim>\<open>_get_wallet_balance\<close>.
\<close>

definition check_payment_balance ::
  "'a chain_scheme \<Rightarrow> collection \<Rightarrow> int \<Rightarrow> pyfloat \<Rightarrow> string \<Rightarrow> pyfloat \<Rightarrow> net_call list \<times> (pay_error + unit)" where
  "check_payment_balance net db tid amount token network_fee =
     (case get_user db tid of
        None \<Rightarrow> ([], Inl WalletNotFound)
      | Some user \<Rightarrow>
          if \<not> truthy_str (wallet_address user) then ([], Inl WalletNotFound)
          else
            (let wallet = the (wallet_address user);
                 balances = get_wallet_balance_alchemy net wallet
             in ([GetWalletBalance wallet],
                 if token = ''SOL'' then
                   (let required = fadd amount network_fee;
                        available = balances_get balances ''SOL''
                    in if flt available required
                       then Inl (InsufficientBalance available required network_fee)
                       else Inr ())
                 else
                   (let token_available = balances_get balances token;
                        sol_available = balances_get balances ''SOL''
                    in if flt token_available amount
                       then Inl (InsufficientToken token token_available amount)
                       else if flt sol_available network_fee
                       then Inl (InsufficientSolForGas sol_available network_fee)
                       else Inr ()))))"

datatype recipient_status = new_user | active | user_no_wallet | pending_wallet

text \<open>
  The \<^verbatim>\<open>payment_data\<close> of a preview. \<open>pd_amount\<close> is the float that the
  string \<^verbatim>\<open>str(amount_float)\<close> denotes and \<^verbatim>\<open>float(amount)\<close> reads
  back.
\<close>

record payment_data =
  pd_recipient_username :: string
  pd_recipient_wallet :: "string option"
  pd_recipient_status :: recipient_status
  pd_recipient_telegram_id :: "int option"
  pd_amount :: pyfloat
  pd_token :: string
  pd_token_mint :: string
  pd_token_decimals :: nat
  pd_network_fee :: pyfloat
  pd_needs_wallet_creation :: bool
  pd_sender_username :: "string option"
  pd_sender_wallet :: "string option"

definition SUPPORTED_PAYMENT_TOKENS :: "string \<rightharpoonup> string \<times> nat" where
  "SUPPORTED_PAYMENT_TOKENS = map_of
     [(''SOL'', (''So11111111111111111111111111111111111111112'', 9)),
      (''USDC'', (''EPjFWdd5AufqSSqeM2qN1xzybapC8G4wEGGkZwyTDt1v'', 6)),
      (''USDT'', (''Es9vMFrzaCERmJfrF4H2FYD4KCoNkY11McCe8BenwNYB'', 6))]"

text \<open>
  Step 5 of \<^verbatim>\<open>_send_payment\<close>: the state of the recipient, with the id, the
  wallet, \<^verbatim>\<open>needs_wallet_creation\<close> and \<^verbatim>\<open>needs_rent_exemption\<close>.
\<close>

definition recipient_state ::
  "user_doc option \<Rightarrow> (recipient_status \<times> int option \<times> string option \<times> bool \<times> bool) option" where
  "recipient_state recipient =
     (case recipient of
        None \<Rightarrow> Some (new_user, None, None, True, True)
      | Some r \<Rightarrow>
          if truthy_int (telegram_id r) \<and> truthy_str (wallet_address r)
          then Some (active, telegram_id r, wallet_address r, False, False)
          else if truthy_int (telegram_id r) \<and> \<not> truthy_str (wallet_address r)
          then Some (user_no_wallet, telegram_id r, None, True, True)
          else if \<not> truthy_int (telegram_id r) \<and> truthy_str (pending_wallet_address r)
          then Some (pending_wallet, None, pending_wallet_address r, False, False)
          else None)"

text \<open>
  \<^verbatim>\<open>_send_payment(telegram_id, recipient_username, amount, token)\<close>, the
  validation that returns the preview. The function reads the collection and never
  writes it, so
  its result holds the network calls and the outcome only. The display strings of the
  preview are left out. The assignment \<^verbatim>\<open>needs_rent_exemption = True\<close> of
  step 7.5 comes after the fee was computed and is read by nothing.
\<close>

definition send_payment ::
  "'a chain_scheme \<Rightarrow> collection \<Rightarrow> int \<Rightarrow> string \<Rightarrow> string \<Rightarrow> string
     \<Rightarrow> net_call list \<times> (pay_error + payment_data)" where
  "send_payment net db tid recipient_username0 amount token0 =
     (let token = py_upper net token0;
          recipient_username = normalize_username net recipient_username0
      in case py_float net amount of
           None \<Rightarrow> ([], Inl InvalidAmountFormat)
         | Some amount_float \<Rightarrow>
      if fle amount_float (Finite 0) then ([], Inl AmountNotPositive)
      else case SUPPORTED_PAYMENT_TOKENS token of
           None \<Rightarrow> ([], Inl UnsupportedToken)
         | Some (mint, decimals) \<Rightarrow>
      (case get_user db tid of
           None \<Rightarrow> ([], Inl NoWalletFound)
         | Some sender \<Rightarrow>
      if \<not> truthy_str (wallet_address sender) then ([], Inl NoWalletFound)
      else case recipient_state (get_user_by_username net db recipient_username) of
           None \<Rightarrow> ([], Inl RecipientStatusUnknown)
         | Some (status, recipient_telegram_id, recipient_wallet, needs_wallet_creation,
                 needs_rent_exemption) \<Rightarrow>
      (let network_fee = estimate_network_fee needs_rent_exemption token
       in if needs_rent_exemption \<and> token = ''SOL''
             \<and> flt amount_float MINIMUM_SOL_TRANSFER_NEW_USER
          then ([], Inl MinimumTransferNewUser)
          else
            (let check_live = (status = active \<and> truthy_str recipient_wallet \<and> token = ''SOL'');
                 calls1 = (if check_live then [GetSolBalance (the recipient_wallet)] else [])
             in if check_live
                   \<and> flt (get_sol_balance net (the recipient_wallet)) (fl_round (89088 / 100000000))
                   \<and> flt amount_float MINIMUM_SOL_TRANSFER_NEW_USER
                then (calls1, Inl RecipientWalletEmpty)
                else
                  (case check_payment_balance net db tid amount_float token network_fee of
                     (calls2, Inl e) \<Rightarrow> (calls1 @ calls2, Inl e)
                   | (calls2, Inr _) \<Rightarrow>
                       (calls1 @ calls2,
                        Inr \<lparr>pd_recipient_username = recipient_username,
                             pd_recipient_wallet = recipient_wallet,
                             pd_recipient_status = status,
                             pd_recipient_telegram_id = recipient_telegram_id,
                             pd_amount = amount_float,
                             pd_token = token,
                             pd_token_mint = mint,
                             pd_token_decimals = decimals,
                             pd_network_fee = network_fee,
                             pd_needs_wallet_creation = needs_wallet_creation,
                             pd_sender_username = username sender,
                             pd_sender_wallet = wallet_address sender\<rparr>))))))"

section \<open>Payment records and notifications (database.py)\<close>

definition add_pending_notification :: "collection \<Rightarrow> int option \<Rightarrow> notification \<Rightarrow> bool \<times> collection" where
  "add_pending_notification db tid n =
     (let (result, db') = update_one (\<lambda>d. telegram_id d = tid)
             (\<lambda>d. d\<lparr>pending_notifications := pending_notifications d @ [n]\<rparr>) db
      in (True, db'))"

definition add_pending_notification_by_username ::
  "'a python_scheme \<Rightarrow> collection \<Rightarrow> string \<Rightarrow> notification \<Rightarrow> bool \<times> collection" where
  "add_pending_notification_by_username py db uname n =
     (let normalized_username = normalize_username py uname;
          (result, db') = update_one
             (\<lambda>d. username d = Some normalized_username \<and> telegram_id d = None)
             (\<lambda>d. d\<lparr>pending_notifications := pending_notifications d @ [n]\<rparr>) db
      in (0 < modified_count result, db'))"

text \<open>
  \<^verbatim>\<open>create_pending_user_by_username\<close>: a document for a handle nobody has
  registered yet, holding the wallet created for it; when a document with the handle
  exists already, only the notification is added. An exception of the insertion is
  caught and gives the result false.
\<close>

definition create_pending_user_by_username ::
  "'a python_scheme \<Rightarrow> timestamp \<Rightarrow> collection \<Rightarrow> string \<Rightarrow> string \<Rightarrow> token \<Rightarrow> notification
     \<Rightarrow> bool \<times> collection" where
  "create_pending_user_by_username py now db uname address encrypted_key n =
     (let normalized_username = normalize_username py uname
      in case find_one (\<lambda>d. username d = Some normalized_username) db of
           Some existing \<Rightarrow>
             if truthy_int (telegram_id existing)
             then add_pending_notification db (telegram_id existing) n
             else add_pending_notification_by_username py db normalized_username n
         | None \<Rightarrow>
             (case insert_one
                \<lparr>telegram_id = None, username = Some normalized_username,
                 wallet_address = None, encrypted_private_key = None,
                 wallet_type = Some ''auto_created_pending'', wallet_created_at = None,
                 last_updated = Some now, pending_wallet_address = Some address,
                 pending_private_key = Some encrypted_key, pending_notifications = [n],
                 transactions = [], total_payments_sent = 0,
                 total_payments_received = 0\<rparr> db of
                Inl e \<Rightarrow> (False, db)
              | Inr db' \<Rightarrow> (True, db')))"

definition activate_pending_wallet ::
  "timestamp \<Rightarrow> collection \<Rightarrow> int option \<Rightarrow> string \<Rightarrow> token \<Rightarrow> bool \<times> collection" where
  "activate_pending_wallet now db tid address encrypted_key =
     (let (result, db') = update_one (\<lambda>d. telegram_id d = tid)
             (\<lambda>d. d\<lparr>wallet_address := Some address,
                      encrypted_private_key := Some encrypted_key,
                      wallet_type := Some ''auto_created'',
                      wallet_created_at := Some now,
                      last_updated := Some now,
                      pending_wallet_address := None,
                      pending_private_key := None\<rparr>) db
      in (0 < modified_count result, db'))"

record tx_record =
  txr_signature :: string
  txr_sender_username :: "string option"
  txr_sender_wallet :: "string option"
  txr_recipient_username :: string
  txr_recipient_wallet :: "string option"
  txr_amount :: pyfloat
  txr_token :: string
  txr_network_fee :: pyfloat
  txr_status :: string

definition save_payment_transaction ::
  "timestamp \<Rightarrow> collection \<Rightarrow> int option \<Rightarrow> tx_record \<Rightarrow> bool \<Rightarrow> bool \<times> collection" where
  "save_payment_transaction now db tid tx_data is_sender =
     (let transaction =
            \<lparr>tx_signature = txr_signature tx_data,
             tx_type = (if is_sender then ''outgoing_payment'' else ''incoming_payment''),
             tx_sender_username = txr_sender_username tx_data,
             tx_sender_wallet = txr_sender_wallet tx_data,
             tx_recipient_username = txr_recipient_username tx_data,
             tx_recipient_wallet = txr_recipient_wallet tx_data,
             tx_amount = txr_amount tx_data,
             tx_token = txr_token tx_data,
             tx_network_fee = txr_network_fee tx_data,
             tx_timestamp = now,
             tx_status = txr_status tx_data\<rparr>;
          (result, db') = update_one (\<lambda>d. telegram_id d = tid)
             (\<lambda>d. if is_sender
                   then d\<lparr>transactions := transactions d @ [transaction],
                           last_updated := Some now,
                           total_payments_sent := total_payments_sent d + 1\<rparr>
                   else d\<lparr>transactions := transactions d @ [transaction],
                           last_updated := Some now,
                           total_payments_received := total_payments_received d + 1\<rparr>) db
      in (0 < modified_count result, db'))"

section \<open>Payment execution (core/bot\_handlers.py)\<close>

text \<open>
  What the execution meets outside the process, on top of the balance reads:
  \<^item> \<open>create_new_wallet\<close>: the address and key of
    \<^verbatim>\<open>wallet_manager.create_new_wallet()\<close>, \<open>None\<close> when it fails;
  \<^item> \<open>execute_sol_transfer\<close>, \<open>execute_spl_transfer\<close>: the results of
    \<^verbatim>\<open>alchemy_transfer.execute_sol_transfer\<close> and
    \<^verbatim>\<open>execute_spl_transfer\<close>, which build, sign and submit the transfer:
    \<open>Inr\<close> the signature of the submitted transaction, \<open>Inl\<close> the error text;
  \<^item> \<open>get_transaction_status\<close>: the answer of the status query for a signature at
    the k-th poll;
  \<^item> \<open>username_hash\<close>: the SHA-256 of a handle reduced modulo \<open>10 ^ 8\<close>;
  \<^item> \<open>fernet_iv\<close>, \<open>clock\<close>: the randomness of the cipher and the time.
\<close>

datatype tx_status = st_confirmed | st_failed | st_pending | st_error

record exec_env = chain +
  create_new_wallet :: "(string \<times> string) option"
  execute_sol_transfer :: "string \<Rightarrow> string option \<Rightarrow> pyfloat \<Rightarrow> string + string"
  execute_spl_transfer :: "string \<Rightarrow> string option \<Rightarrow> string \<Rightarrow> pyfloat \<Rightarrow> nat \<Rightarrow> string + string"
  get_transaction_status :: "string \<Rightarrow> nat \<Rightarrow> tx_status"
  username_hash :: "string \<Rightarrow> int"
  fernet_iv :: nat
  clock :: timestamp

text \<open>
  Step 4, the polling loop \<^verbatim>\<open>for attempt in range(30)\<close>: the number of status
  queries made and how the loop ended.
\<close>

datatype poll_outcome = Confirmed | FailedOnChain | Unconfirmed

fun poll_confirmation :: "(nat \<Rightarrow> tx_status) \<Rightarrow> nat list \<Rightarrow> nat \<times> poll_outcome" where
  "poll_confirmation status [] = (0, Unconfirmed)"
| "poll_confirmation status (attempt # rest) =
     (case status attempt of
        st_confirmed \<Rightarrow> (1, Confirmed)
      | st_failed \<Rightarrow> (1, FailedOnChain)
      | _ \<Rightarrow> (case poll_confirmation status rest of (n, outcome) \<Rightarrow> (Suc n, outcome)))"

record payment_result =
  pr_signature :: string
  pr_recipient_wallet :: "string option"
  pr_recipient_status :: recipient_status
  pr_recipient_telegram_id :: "int option"
  pr_sender_username :: "string option"
  pr_sender_wallet :: "string option"
  pr_recipient_username :: string
  pr_amount :: pyfloat
  pr_token :: string
  pr_recipient_private_key :: "string option"

text \<open>
  Steps 5 and 6 of \<^verbatim>\<open>execute_payment_secure\<close>, reached after a confirmed poll
  only: the transaction records of sender and recipient and the stored notification.
\<close>

definition record_payment ::
  "exec_env \<Rightarrow> collection \<Rightarrow> int \<Rightarrow> payment_data \<Rightarrow> user_doc \<Rightarrow> string option \<Rightarrow> string option
     \<Rightarrow> string \<Rightarrow> collection" where
  "record_payment env db sender_telegram_id pd sender_user recipient_wallet recipient_private_key
       signature =
     (let tx_record =
            \<lparr>txr_signature = signature,
             txr_sender_username = username sender_user,
             txr_sender_wallet = wallet_address sender_user,
             txr_recipient_username = pd_recipient_username pd,
             txr_recipient_wallet = recipient_wallet,
             txr_amount = pd_amount pd,
             txr_token = pd_token pd,
             txr_network_fee = pd_network_fee pd,
             txr_status = ''confirmed''\<rparr>;
          db1 = snd (save_payment_transaction (clock env) db (Some sender_telegram_id) tx_record True);
          db2 = (if truthy_int (pd_recipient_telegram_id pd)
                 then snd (save_payment_transaction (clock env) db1 (pd_recipient_telegram_id pd)
                             tx_record False)
                 else db1);
          notification_data =
            \<lparr>n_type = ''payment_received'', n_amount = pd_amount pd, n_token = pd_token pd,
             n_sender_username = username sender_user,
             n_sender_wallet = wallet_address sender_user,
             n_signature = signature, n_timestamp = clock env\<rparr>
      in if pd_recipient_status pd = new_user
         then snd (create_pending_user_by_username env (clock env) db2 (pd_recipient_username pd)
                     (the recipient_wallet)
                     (encrypt_private_key (fernet_iv env) (the recipient_private_key)
                        (Some (username_hash env (pd_recipient_username pd))))
                     notification_data)
         else if pd_recipient_status pd = pending_wallet
         then snd (add_pending_notification_by_username env db2 (pd_recipient_username pd)
                     notification_data)
         else if truthy_int (pd_recipient_telegram_id pd)
         then snd (add_pending_notification db2 (pd_recipient_telegram_id pd) notification_data)
         else db2)"

text \<open>
  \<^verbatim>\<open>execute_payment_secure(sender_telegram_id, payment_data)\<close>. The result is
  the list of network calls in order, the collection afterwards and the outcome. An
  exception inside the body is caught by the outer handler and becomes the error result
  \<open>Raised\<close>. In the branch for a new user the key encrypted before the transfer
  (\<^verbatim>\<open>encrypted_key\<close>, line 1675) is not used: nothing is stored for the
  handle until step 6.
\<close>

definition execute_payment_secure ::
  "exec_env \<Rightarrow> collection \<Rightarrow> int \<Rightarrow> payment_data
     \<Rightarrow> net_call list \<times> collection \<times> (pay_error + payment_result)" where
  "execute_payment_secure env db sender_telegram_id pd =
     (case get_decrypted_private_key db sender_telegram_id of
        Inl e \<Rightarrow> ([], db, Inl (Raised e))
      | Inr None \<Rightarrow> ([], db, Inl WalletNotFound)
      | Inr (Some sender_private_key) \<Rightarrow>
      if sender_private_key = [] then ([], db, Inl WalletNotFound)
      else case get_user db sender_telegram_id of
        None \<Rightarrow> ([], db, Inl (Raised TypeError))
      | Some sender_user \<Rightarrow>
      (let token = pd_token pd;
           amount = pd_amount pd;
           check_live = (pd_recipient_status pd \<in> {active, pending_wallet}
                          \<and> truthy_str (pd_recipient_wallet pd) \<and> token = ''SOL'');
           calls1 = (if check_live then [GetSolBalance (the (pd_recipient_wallet pd))] else [])
       in if check_live
             \<and> flt (get_sol_balance env (the (pd_recipient_wallet pd))) (fl_round (89088 / 100000000))
             \<and> flt amount (fl_round (1 / 1000))
          then (calls1, db,
                Inl (RecipientInsufficientBalance (get_sol_balance env (the (pd_recipient_wallet pd)))))
          else
          if pd_recipient_status pd \<in> {new_user, user_no_wallet} \<and> create_new_wallet env = None
          then (calls1, db, Inl FailedToCreateWallet)
          else
          (let recipient_wallet =
                 (if pd_recipient_status pd \<in> {new_user, user_no_wallet}
                  then Some (fst (the (create_new_wallet env)))
                  else pd_recipient_wallet pd);
               recipient_private_key =
                 (if pd_recipient_status pd \<in> {new_user, user_no_wallet}
                  then Some (snd (the (create_new_wallet env)))
                  else None);
               db1 = (if pd_recipient_status pd = user_no_wallet
                      then snd (activate_pending_wallet (clock env) db (pd_recipient_telegram_id pd)
                                  (the recipient_wallet)
                                  (encrypt_private_key (fernet_iv env) (the recipient_private_key)
                                     (pd_recipient_telegram_id pd)))
                      else db);
               transfer_result =
                 (if token = ''SOL''
                  then execute_sol_transfer env sender_private_key recipient_wallet amount
                  else execute_spl_transfer env sender_private_key recipient_wallet
                         (pd_token_mint pd) amount (pd_token_decimals pd));
               calls2 = calls1 @ [ExecuteTransfer token recipient_wallet amount]
           in case transfer_result of
                Inl err \<Rightarrow> (calls2, db1, Inl (TransferFailed err))
              | Inr signature \<Rightarrow>
                  (case poll_confirmation (get_transaction_status env signature) [0..<30] of
                     (polls, outcome) \<Rightarrow>
                       (let calls3 = calls2 @ replicate polls (GetTransactionStatus signature)
                        in case outcome of
                             FailedOnChain \<Rightarrow> (calls3, db1, Inl FailedOnBlockchain)
                           | Unconfirmed \<Rightarrow> (calls3, db1, Inl ConfirmationTimeout)
                           | Confirmed \<Rightarrow>
                               (calls3,
                                record_payment env db1 sender_telegram_id pd sender_user
                                  recipient_wallet recipient_private_key signature,
                                Inr \<lparr>pr_signature = signature,
                                     pr_recipient_wallet = recipient_wallet,
                                     pr_recipient_status = pd_recipient_status pd,
                                     pr_recipient_telegram_id = pd_recipient_telegram_id pd,
                                     pr_sender_username = username sender_user,
                                     pr_sender_wallet = wallet_address sender_user,
                                     pr_recipient_username = pd_recipient_username pd,
                                     pr_amount = amount,
                                     pr_token = token,
                                     pr_recipient_private_key = recipient_private_key\<rparr>))))))"

section \<open>The confirmation callback (core/bot\_handlers.py)\<close>

text \<open>
  An entry of the module dictionary \<^verbatim>\<open>pending_payments\<close>. The key
  \<^verbatim>\<open>payment_data\<close> is optional: the entries written by
  \<^verbatim>\<open>_handle_tool_result\<close> do not have it.
\<close>

record payment_info =
  pi_telegram_id :: int
  pi_payment_data :: "payment_data option"

text \<open>
  The messages of the handler, by their headline, and the three ways it sends one:
  editing the message of the button, a new message in the chat, and a direct message to
  a user. The chat decides for each call whether it goes through or raises.
\<close>

datatype chat_text =
    PaymentExpired
  | PaymentCancelled
  | ProcessingPayment
  | GroupPaymentSent payment_result
  | SenderDetails payment_result
  | PaymentSuccessful payment_result
  | PaymentFailed pay_error
  | PaymentFailedDueToError
  | WalletCreatedForYou payment_result
  | PaymentReceived payment_result

datatype chat_call =
    EditMessage chat_text
  | SendMessage chat_text
  | BotSendMessage "int option" chat_text

type_synonym chat = "chat_call \<Rightarrow> bool"

record bot_state =
  bs_pending :: "string \<rightharpoonup> payment_info"
  bs_db :: collection
  bs_net_log :: "net_call list"
  bs_chat_log :: "chat_call list"

datatype handler_exit = Returned | Propagated

text \<open>\<^verbatim>\<open>str.split(sep)\<close> for a one-character separator.\<close>

fun split_on :: "char \<Rightarrow> string \<Rightarrow> string list" where
  "split_on c [] = [[]]"
| "split_on c (x # xs) =
     (if x = c then [] # split_on c xs
      else (case split_on c xs of w # ws \<Rightarrow> (x # w) # ws | [] \<Rightarrow> [[x]]))"

text \<open>
  The pattern \<^verbatim>\<open>try: edit_message_text(t) except: send_message(t)\<close>:
  \<open>None\<close> when the fallback raises too.
\<close>

definition reply :: "chat \<Rightarrow> bot_state \<Rightarrow> chat_text \<Rightarrow> bot_state option" where
  "reply chat st t =
     (if chat (EditMessage t) then Some (st\<lparr>bs_chat_log := bs_chat_log st @ [EditMessage t]\<rparr>)
      else if chat (SendMessage t) then Some (st\<lparr>bs_chat_log := bs_chat_log st @ [SendMessage t]\<rparr>)
      else None)"

text \<open>A direct message inside its own \<^verbatim>\<open>try\<close>: a failure is logged only.\<close>

definition direct_message :: "chat \<Rightarrow> bot_state \<Rightarrow> int option \<Rightarrow> chat_text \<Rightarrow> bot_state" where
  "direct_message chat st uid t =
     (if chat (BotSendMessage uid t)
      then st\<lparr>bs_chat_log := bs_chat_log st @ [BotSendMessage uid t]\<rparr>
      else st)"

definition send_recipient_notification :: "chat \<Rightarrow> bot_state \<Rightarrow> payment_result \<Rightarrow> bot_state" where
  "send_recipient_notification chat st result =
     (if \<not> truthy_int (pr_recipient_telegram_id result) then st
      else direct_message chat st (pr_recipient_telegram_id result)
             (if pr_recipient_status result = user_no_wallet then WalletCreatedForYou result
              else PaymentReceived result))"

text \<open>
  The body of the \<^verbatim>\<open>try\<close> of \<^verbatim>\<open>payment_callback_handler\<close>. The flag
  of the result says whether an exception left the body; the state is the one reached
  then. The entry is deleted from \<^verbatim>\<open>pending_payments\<close> by the last statement
  of the body (and by the cancel branch).
\<close>

definition callback_body ::
  "exec_env \<Rightarrow> chat \<Rightarrow> bot_state \<Rightarrow> string \<Rightarrow> int \<Rightarrow> bool \<Rightarrow> bot_state \<times> bool" where
  "callback_body env chat st data from_user is_group =
     (let parts = split_on CHR ''_'' data
      in if length parts < 3 then (st, True)
         else
         (let action = parts ! 1; payment_id = parts ! 2
          in case bs_pending st payment_id of
               None \<Rightarrow>
                 (case reply chat st PaymentExpired of
                    None \<Rightarrow> (st, True)
                  | Some st' \<Rightarrow> (st', False))
             | Some payment_info \<Rightarrow>
                 if from_user \<noteq> pi_telegram_id payment_info then (st, False)
                 else if action = ''cancel'' then
                   (case reply chat st PaymentCancelled of
                      None \<Rightarrow> (st, True)
                    | Some st' \<Rightarrow> (st'\<lparr>bs_pending := (bs_pending st')(payment_id := None)\<rparr>, False))
                 else
                 (case reply chat st ProcessingPayment of
                    None \<Rightarrow> (st, True)
                  | Some st1 \<Rightarrow>
                 (case pi_payment_data payment_info of
                    None \<Rightarrow> (st1, True)
                  | Some payment_data \<Rightarrow>
                 (case execute_payment_secure env (bs_db st1) (pi_telegram_id payment_info)
                         payment_data of
                    (calls, db', outcome) \<Rightarrow>
                 (let st2 = st1\<lparr>bs_db := db', bs_net_log := bs_net_log st1 @ calls\<rparr>
                  in case outcome of
                       Inl err \<Rightarrow>
                         (case reply chat st2 (PaymentFailed err) of
                            None \<Rightarrow> (st2, True)
                          | Some st3 \<Rightarrow>
                              (st3\<lparr>bs_pending := (bs_pending st3)(payment_id := None)\<rparr>, False))
                     | Inr result \<Rightarrow>
                         if is_group then
                           (case reply chat st2 (GroupPaymentSent result) of
                              None \<Rightarrow> (st2, True)
                            | Some st3 \<Rightarrow>
                                if pr_sender_wallet result = None \<or> pr_recipient_wallet result = None
                                then (st3, True)
                                else
                                (let st4 = direct_message chat st3
                                             (Some (pi_telegram_id payment_info)) (SenderDetails result);
                                     st5 = send_recipient_notification chat st4 result
                                 in (st5\<lparr>bs_pending := (bs_pending st5)(payment_id := None)\<rparr>,
                                     False)))
                         else
                           if pr_sender_wallet result = None \<or> pr_recipient_wallet result = None
                           then (st2, True)
                           else
                           (case reply chat st2 (PaymentSuccessful result) of
                              None \<Rightarrow> (st2, True)
                            | Some st3 \<Rightarrow>
                                (let st4 = send_recipient_notification chat st3 result
                                 in (st4\<lparr>bs_pending := (bs_pending st4)(payment_id := None)\<rparr>,
                                     False)))))))))"

text \<open>
  \<^verbatim>\<open>payment_callback_handler\<close>: the body, and the \<^verbatim>\<open>except\<close> clause
  that reports ``Payment failed due to an error''; when that report cannot be sent
  either, the exception leaves the handler.
\<close>

definition payment_callback_handler ::
  "exec_env \<Rightarrow> chat \<Rightarrow> bot_state \<Rightarrow> string \<Rightarrow> int \<Rightarrow> bool \<Rightarrow> bot_state \<times> handler_exit" where
  "payment_callback_handler env chat st data from_user is_group =
     (case callback_body env chat st data from_user is_group of
        (st', False) \<Rightarrow> (st', Returned)
      | (st', True) \<Rightarrow>
          (case reply chat st' PaymentFailedDueToError of
             Some st'' \<Rightarrow> (st'', Returned)
           | None \<Rightarrow> (st', Propagated)))"

text \<open>The calls of a log that submit a transfer.\<close>

fun is_transfer :: "net_call \<Rightarrow> bool" where
  "is_transfer (ExecuteTransfer _ _ _) = True"
| "is_transfer _ = False"

text \<open>The ledger and the stored notifications of a collection, document by document.\<close>

definition ledger :: "collection \<Rightarrow> transaction list list" where
  "ledger db = map transactions db"

definition stored_notifications :: "collection \<Rightarrow> notification list list" where
  "stored_notifications db = map pending_notifications db"


section \<open>Wallet import (services/wallet\_manager.py)\<close>

text \<open>
  The library functions the import calls, each with \<open>None\<close> for a raised
  exception: \<^verbatim>\<open>base58.b58decode\<close>, \<^verbatim>\<open>bytes.fromhex\<close>,
  \<^verbatim>\<open>Keypair.from_bytes\<close> followed by \<^verbatim>\<open>str(keypair.pubkey())\<close>, and
  \<^verbatim>\<open>base58.b58encode\<close>. Bytes are numbers below 256.
\<close>

type_synonym bytes = "nat list"

record key_codec = python +
  b58decode :: "string \<Rightarrow> bytes option"
  fromhex :: "string \<Rightarrow> bytes option"
  keypair_address :: "bytes \<Rightarrow> string option"
  b58encode :: "bytes \<Rightarrow> string"

text \<open>
  The results of \<^verbatim>\<open>import_from_private_key\<close>: the failures ``Invalid private
  key format'', ``Invalid private key length'' and ``Import failed: ...'' (an exception
  caught by the outer handler), and the success with address and key.
\<close>

datatype import_error = InvalidPrivateKeyFormat | InvalidPrivateKeyLength | ImportFailed

datatype import_result = ImportError import_error | Imported string string

text \<open>
  \<^verbatim>\<open>import_from_private_key(private_key)\<close>. The nested
  \<^verbatim>\<open>try\<close> decodes as base58 first and as hex only when base58 raises.
\<close>

definition import_from_private_key :: "key_codec \<Rightarrow> string \<Rightarrow> import_result" where
  "import_from_private_key lib private_key0 =
     (let private_key = py_strip lib private_key0
      in case (case b58decode lib private_key of
                 Some decoded \<Rightarrow> Some decoded
               | None \<Rightarrow> fromhex lib private_key) of
           None \<Rightarrow> ImportError InvalidPrivateKeyFormat
         | Some decoded \<Rightarrow>
             if length decoded \<noteq> 64 then ImportError InvalidPrivateKeyLength
             else (case keypair_address lib decoded of
                     None \<Rightarrow> ImportError ImportFailed
                   | Some public_key \<Rightarrow>
                       Imported public_key
                         (if 64 < py_len lib private_key then private_key
                          else b58encode lib decoded)))"

section \<open>Sample data\<close>

text \<open>
  Documents and values for the concrete runs below. The Python of the runs works on
  ASCII strings, where \<^verbatim>\<open>lower\<close>, \<^verbatim>\<open>upper\<close> and
  \<^verbatim>\<open>strip\<close> are the following and \<^verbatim>\<open>len\<close> counts the bytes; of
  \<^verbatim>\<open>float\<close> the runs need four values.
\<close>

definition ascii_lower :: "string \<Rightarrow> string" where
  "ascii_lower s = map (\<lambda>c. if c \<in> set ''ABCDEFGHIJKLMNOPQRSTUVWXYZ''
                            then char_of (of_char c + (32::nat)) else c) s"

definition ascii_upper :: "string \<Rightarrow> string" where
  "ascii_upper s = map (\<lambda>c. if c \<in> set ''abcdefghijklmnopqrstuvwxyz''
                            then char_of (of_char c - (32::nat)) else c) s"

definition ascii_strip :: "string \<Rightarrow> string" where
  "ascii_strip s =
     rev (dropWhile (\<lambda>c. of_char c \<in> {9, 10, 11, 12, 13, 28, 29, 30, 31, 32 :: nat})
       (rev (dropWhile (\<lambda>c. of_char c \<in> {9, 10, 11, 12, 13, 28, 29, 30, 31, 32 :: nat}) s)))"

definition half_milli :: pyfloat where
  "half_milli = fl_round (5 / 10000)"

definition sample_py_float :: "string \<Rightarrow> pyfloat option" where
  "sample_py_float s =
     (if s = ''0.0005'' then Some half_milli
      else if s = ''1.0'' then Some (Finite 1)
      else if s = ''-1'' then Some (Finite (- 1))
      else if s = ''nan'' then Some NaN
      else None)"

definition blank_doc :: user_doc where
  "blank_doc = \<lparr>telegram_id = None, username = None, wallet_address = None,
     encrypted_private_key = None, wallet_type = None, wallet_created_at = None,
     last_updated = None, pending_wallet_address = None, pending_private_key = None,
     pending_notifications = [], transactions = [], total_payments_sent = 0,
     total_payments_received = 0\<rparr>"

definition alice_doc :: user_doc where
  "alice_doc = blank_doc\<lparr>telegram_id := Some 7, username := Some ''alice'',
     wallet_address := Some ''AliceAddr'',
     encrypted_private_key := Some (Token (Some 7) 0 ''AliceKey''),
     wallet_type := Some ''created'', wallet_created_at := Some 1, last_updated := Some 1\<rparr>"

definition sample_notification :: notification where
  "sample_notification = \<lparr>n_type = ''payment_received'', n_amount = Finite 1,
     n_token = ''SOL'', n_sender_username = Some ''alice'',
     n_sender_wallet = Some ''AliceAddr'', n_signature = ''sig1'', n_timestamp = 2\<rparr>"

definition pending_bob_doc :: user_doc where
  "pending_bob_doc = blank_doc\<lparr>username := Some ''bob'',
     pending_wallet_address := Some ''BobAddr'',
     pending_private_key := Some (Token (Some 424242) 3 ''BobKey''),
     wallet_type := Some ''auto_created_pending'',
     pending_notifications := [sample_notification]\<rparr>"

definition bob_doc :: user_doc where
  "bob_doc = blank_doc\<lparr>telegram_id := Some 8, username := Some ''bob'',
     wallet_address := Some ''BobAddr'',
     encrypted_private_key := Some (Token (Some 8) 4 ''BobKey''),
     wallet_type := Some ''created'', wallet_created_at := Some 1, last_updated := Some 1\<rparr>"

definition carol_doc :: user_doc where
  "carol_doc = blank_doc\<lparr>telegram_id := Some 9, username := Some ''carol''\<rparr>"

text \<open>
  The token list that the runs read for every address: 2 SOL, 10 USDC and 3 of a token
  whose metadata spells its symbol \<open>usdt\<close>; every address holds 0 lamports in the
  eyes of the RPC.
\<close>

definition sample_assets :: "api_token list" where
  "sample_assets =
     [\<lparr>at_native = True, at_symbol = None, at_balance = Some (Finite 2)\<rparr>,
      \<lparr>at_native = False, at_symbol = Some ''USDC'', at_balance = Some (Finite 10)\<rparr>,
      \<lparr>at_native = False, at_symbol = Some ''usdt'', at_balance = Some (Finite 3)\<rparr>]"

definition sample_chain :: chain where
  "sample_chain = \<lparr>py_lower = ascii_lower, py_upper = ascii_upper, py_strip = ascii_strip,
     py_len = length, py_float = sample_py_float,
     rpc_get_balance = (\<lambda>_. Some 0),
     assets_by_address = (\<lambda>_. Some sample_assets)\<rparr>"

text \<open>A wallet whose one asset is \<open>2047 / 1024 = 1.9990234375\<close> SOL.\<close>

definition rounding_chain :: chain where
  "rounding_chain = sample_chain\<lparr>assets_by_address :=
     (\<lambda>_. Some [\<lparr>at_native = True, at_symbol = None,
                   at_balance = Some (Finite (2047 / 1024))\<rparr>])\<rparr>"

text \<open>
  A network on which every transfer is accepted with signature \<open>sig1\<close> and the
  status of a transaction stays pending, and one on which it is confirmed at the third
  poll.
\<close>

definition slow_env :: exec_env where
  "slow_env = \<lparr>py_lower = ascii_lower, py_upper = ascii_upper, py_strip = ascii_strip,
     py_len = length, py_float = sample_py_float,
     rpc_get_balance = (\<lambda>_. Some 0),
     assets_by_address = (\<lambda>_. Some sample_assets),
     create_new_wallet = Some (''NewAddr'', ''NewKey''),
     execute_sol_transfer = (\<lambda>_ _ _. Inr ''sig1''),
     execute_spl_transfer = (\<lambda>_ _ _ _ _. Inr ''sig1''),
     get_transaction_status = (\<lambda>_ _. st_pending),
     username_hash = (\<lambda>_. 424242),
     fernet_iv = 5,
     clock = 20\<rparr>"

definition quick_env :: exec_env where
  "quick_env = slow_env\<lparr>get_transaction_status := (\<lambda>_ k. if k < 2 then st_pending else st_confirmed)\<rparr>"

definition pay_new_user :: payment_data where
  "pay_new_user = \<lparr>pd_recipient_username = ''dave'', pd_recipient_wallet = None,
     pd_recipient_status = new_user, pd_recipient_telegram_id = None,
     pd_amount = Finite 1, pd_token = ''SOL'',
     pd_token_mint = ''So11111111111111111111111111111111111111112'', pd_token_decimals = 9,
     pd_network_fee = Finite (8263034540377457 / 2 ^ 63), pd_needs_wallet_creation = True,
     pd_sender_username = Some ''alice'', pd_sender_wallet = Some ''AliceAddr''\<rparr>"

definition pay_carol :: payment_data where
  "pay_carol = pay_new_user\<lparr>pd_recipient_username := ''carol'',
     pd_recipient_status := user_no_wallet, pd_recipient_telegram_id := Some 9\<rparr>"



definition waiting_state :: bot_state where
  "waiting_state = \<lparr>bs_pending = [''ab12cd34'' \<mapsto>
        \<lparr>pi_telegram_id = 7, pi_payment_data = Some pay_new_user\<rparr>],
     bs_db = [alice_doc], bs_net_log = [], bs_chat_log = []\<rparr>"

definition open_chat :: chat where
  "open_chat = (\<lambda>_. True)"

text \<open>
  A chat that refuses the text of the timeout failure, edited or sent (the same text
  goes to both calls), and takes every other message.
\<close>

definition refusing_chat :: chat where
  "refusing_chat = (\<lambda>c. c \<noteq> EditMessage (PaymentFailed ConfirmationTimeout)
                       \<and> c \<noteq> SendMessage (PaymentFailed ConfirmationTimeout))"

text \<open>
  A codec for the runs below: base58 reads \<open>good\<close> as 64 zero bytes, \<open>short\<close>
  as three bytes and \<open>cafe\<close> as three bytes; hex reads \<open>cafe\<close> and
  \<open>00ff\<close> as 64 bytes of 255 and \<open>0f\<close> as one byte.
\<close>

definition toy_codec :: key_codec where
  "toy_codec = \<lparr>py_lower = ascii_lower, py_upper = ascii_upper, py_strip = ascii_strip,
     py_len = length, py_float = sample_py_float,
     b58decode = (\<lambda>s. if s = ''good'' then Some (replicate 64 0)
                       else if s = ''short'' \<or> s = ''cafe'' then Some [1, 2, 3] else None),
     fromhex = (\<lambda>s. if s = ''cafe'' \<or> s = ''00ff'' then Some (replicate 64 255)
                     else if s = ''0f'' then Some [15] else None),
     keypair_address = (\<lambda>b. if b = replicate 64 0 then Some ''ZeroAddr''
                             else if b = replicate 64 255 then Some ''FullAddr'' else None),
     b58encode = (\<lambda>_. ''encoded'')\<rparr>"

section \<open>Properties\<close>

subsection \<open>Floats\<close>

lemma flt_not_nan: "x \<noteq> NaN \<Longrightarrow> y \<noteq> NaN \<Longrightarrow> flt x y = (\<not> fle y x)"
  by (cases x; cases y) auto

lemma fl_round_not_nan: "fl_round x \<noteq> NaN"
  by (simp add: fl_round_def Let_def)

lemma py_round_not_nan: "x \<noteq> NaN \<Longrightarrow> py_round x n \<noteq> NaN"
  by (cases x) (simp_all add: fl_round_not_nan)

lemma flt_zero_not_nan: "flt (Finite 0) x \<Longrightarrow> x \<noteq> NaN"
  by (cases x) simp_all

subsection \<open>Fees\<close>

text \<open>
  C9. For the native asset the estimate with account creation minus the estimate without
  it is the configured rent-exemption constant, exactly, in binary64 arithmetic: the sum
  \<open>BASE_TRANSACTION_FEE + RENT_EXEMPTION_FEE\<close> is rounded, and subtracting the base
  fee again gives back the very float of \<open>RENT_EXEMPTION_FEE\<close>.
\<close>

theorem fee_difference_is_rent_exemption:
  "fsub (estimate_network_fee True ''SOL'') (estimate_network_fee False ''SOL'')
     = RENT_EXEMPTION_FEE
   \<and> RENT_EXEMPTION_FEE = Finite (8216917680193183 / 2 ^ 63)"
  by code_simp

subsection \<open>Key encryption\<close>

text \<open>
  C5. For every key, initialisation vector and id, the key encrypted under the cipher
  derived from the id opens again under the cipher derived from the same id, and under
  the cipher derived from any other id the decryption fails with
  \<^verbatim>\<open>InvalidToken\<close> and returns nothing; the same for the two methods of
  \<^verbatim>\<open>EncryptionManager\<close>.
\<close>

theorem decrypt_encrypt_round_trip:
  "decrypt_private_key (encrypt_private_key iv private_key tid) tid
     = Inr private_key
   \<and> (other_id \<noteq> tid \<longrightarrow>
        decrypt_private_key (encrypt_private_key iv private_key tid) other_id
          = Inl InvalidToken)
   \<and> manager_decrypt_private_key (manager_encrypt_private_key iv private_key user_id) user_id
       = Inr private_key
   \<and> (other_user \<noteq> user_id \<longrightarrow>
        manager_decrypt_private_key (manager_encrypt_private_key iv private_key user_id) other_user
          = Inl InvalidToken)"
  by (simp add: decrypt_private_key_def encrypt_private_key_def derive_key_from_telegram_id_def
      manager_decrypt_private_key_def manager_encrypt_private_key_def derive_key_from_id_def)

theorem decrypt_encrypt_round_trip_witness:
  "decrypt_private_key (encrypt_private_key 0 ''AliceKey'' (Some 7)) (Some 7) = Inr ''AliceKey''
   \<and> decrypt_private_key (encrypt_private_key 0 ''AliceKey'' (Some 7)) (Some 8) = Inl InvalidToken
   \<and> decrypt_private_key (encrypt_private_key 0 ''AliceKey'' (Some 7)) None = Inl InvalidToken
   \<and> manager_decrypt_private_key (manager_encrypt_private_key 0 ''AliceKey'' 7) 7 = Inr ''AliceKey''
   \<and> manager_decrypt_private_key (manager_encrypt_private_key 0 ''AliceKey'' 7) 8 = Inl InvalidToken"
  using decrypt_encrypt_round_trip [of 0 "''AliceKey''" "Some 7" "Some 8" 7 8]
    decrypt_encrypt_round_trip [of 0 "''AliceKey''" "Some 7" None 7 8]
  by simp

subsection \<open>The collection\<close>

lemma find_update_first:
  "(\<And>d. p d \<Longrightarrow> p (f d)) \<Longrightarrow> find p (update_first p f c) = map_option f (find p c)"
  by (induction c) auto

lemma length_update_first: "length (update_first p f c) = length c"
  by (induction c) auto

lemma filter_update_first:
  "(\<And>d. p d \<Longrightarrow> p (f d)) \<Longrightarrow> filter (\<lambda>d. \<not> p d) (update_first p f c) = filter (\<lambda>d. \<not> p d) c"
  by (induction c) auto

lemma update_first_no_match: "find p c = None \<Longrightarrow> update_first p f c = c"
  by (induction c) (auto split: if_splits)

subsection \<open>Saving a wallet\<close>

text \<open>
  C3, as the code has it. For an identity with a user document \<open>save_wallet\<close>
  succeeds and stores the address, the fresh ciphertext of the key, the type and the time
  it is given, whatever wallet the document held: an identical address stays, a different
  address replaces the stored one. Documents of other identities are untouched. For an
  identity without a user document it returns failure and the collection is unchanged.
\<close>

theorem save_wallet_overwrites:
  "(get_user db tid \<noteq> None \<longrightarrow>
      (\<exists>db' u'. save_wallet iv now db tid address private_key wtype = (True, db')
         \<and> get_user db' tid = Some u'
         \<and> wallet_address u' = Some address
         \<and> encrypted_private_key u' = Some (encrypt_private_key iv private_key (Some tid))
         \<and> wallet_type u' = Some wtype
         \<and> wallet_created_at u' = Some now
         \<and> length db' = length db
         \<and> filter (\<lambda>d. telegram_id d \<noteq> Some tid) db'
             = filter (\<lambda>d. telegram_id d \<noteq> Some tid) db))
   \<and> (get_user db tid = None \<longrightarrow>
        save_wallet iv now db tid address private_key wtype = (False, db))"
proof (intro conjI impI)
  let ?p = "\<lambda>d. telegram_id d = Some tid"
  let ?f = "\<lambda>d. d\<lparr>wallet_address := Some address,
                      encrypted_private_key := Some (encrypt_private_key iv private_key (Some tid)),
                      wallet_type := Some wtype,
                      wallet_created_at := Some now,
                      last_updated := Some now\<rparr>"
  assume "get_user db tid \<noteq> None"
  then obtain u where u: "find ?p db = Some u"
    by (auto simp: get_user_def find_one_def)
  have keep: "\<And>d. ?p d \<Longrightarrow> ?p (?f d)" by simp
  have sw: "save_wallet iv now db tid address private_key wtype = (True, update_first ?p ?f db)"
    using u by (simp add: save_wallet_def update_one_def Let_def)
  have found: "get_user (update_first ?p ?f db) tid = Some (?f u)"
    using find_update_first [of ?p ?f db, OF keep] u by (simp add: get_user_def find_one_def)
  have rest: "filter (\<lambda>d. \<not> ?p d) (update_first ?p ?f db) = filter (\<lambda>d. \<not> ?p d) db"
    using filter_update_first [of ?p ?f db, OF keep] .
  show "\<exists>db' u'. save_wallet iv now db tid address private_key wtype = (True, db')
         \<and> get_user db' tid = Some u'
         \<and> wallet_address u' = Some address
         \<and> encrypted_private_key u' = Some (encrypt_private_key iv private_key (Some tid))
         \<and> wallet_type u' = Some wtype
         \<and> wallet_created_at u' = Some now
         \<and> length db' = length db
         \<and> filter (\<lambda>d. telegram_id d \<noteq> Some tid) db'
             = filter (\<lambda>d. telegram_id d \<noteq> Some tid) db"
    using sw found rest by (intro exI [of _ "update_first ?p ?f db"] exI [of _ "?f u"])
      (simp add: length_update_first)
next
  assume "get_user db tid = None"
  then show "save_wallet iv now db tid address private_key wtype = (False, db)"
    by (simp add: save_wallet_def update_one_def get_user_def find_one_def)
qed

theorem save_wallet_overwrites_witness:
  "get_user [alice_doc] 7 \<noteq> None
   \<and> (\<exists>db' u'. save_wallet 5 9 [alice_doc] 7 ''OtherAddr'' ''OtherKey'' ''imported'' = (True, db')
         \<and> get_user db' 7 = Some u' \<and> wallet_address u' = Some ''OtherAddr'')
   \<and> get_user [alice_doc] 8 = None
   \<and> save_wallet 5 9 [alice_doc] 8 ''OtherAddr'' ''OtherKey'' ''imported'' = (False, [alice_doc])"
proof -
  have a: "get_user [alice_doc] 7 \<noteq> None"
    by (simp add: get_user_def find_one_def alice_doc_def blank_doc_def)
  have b: "get_user [alice_doc] 8 = None"
    by (simp add: get_user_def find_one_def alice_doc_def blank_doc_def)
  from save_wallet_overwrites [of "[alice_doc]" 7 5 9 "''OtherAddr''" "''OtherKey''" "''imported''"] a
  have c: "\<exists>db' u'. save_wallet 5 9 [alice_doc] 7 ''OtherAddr'' ''OtherKey'' ''imported'' = (True, db')
         \<and> get_user db' 7 = Some u' \<and> wallet_address u' = Some ''OtherAddr''"
    by blast
  from save_wallet_overwrites [of "[alice_doc]" 8 5 9 "''OtherAddr''" "''OtherKey''" "''imported''"] b
  have d: "save_wallet 5 9 [alice_doc] 8 ''OtherAddr'' ''OtherKey'' ''imported'' = (False, [alice_doc])"
    by blast
  show ?thesis using a b c d by blast
qed

text \<open>
  C3 as the specification words it does not hold: a second \<open>save_wallet\<close> with a different address is
  accepted, and the stored address changes from \<open>AliceAddr\<close> to \<open>OtherAddr\<close>;
  a second \<open>save_wallet\<close> with the identical address and key still rewrites the
  ciphertext and the creation time.
\<close>

theorem save_wallet_different_address_counterexample:
  "map wallet_address [alice_doc] = [Some ''AliceAddr'']
   \<and> fst (save_wallet 5 9 [alice_doc] 7 ''OtherAddr'' ''OtherKey'' ''imported'') = True
   \<and> map wallet_address (snd (save_wallet 5 9 [alice_doc] 7 ''OtherAddr'' ''OtherKey'' ''imported''))
       = [Some ''OtherAddr'']
   \<and> snd (save_wallet 5 9 [alice_doc] 7 ''AliceAddr'' ''AliceKey'' ''created'') \<noteq> [alice_doc]"
  by (simp add: save_wallet_def update_one_def alice_doc_def blank_doc_def
      encrypt_private_key_def derive_key_from_telegram_id_def Let_def)

subsection \<open>The Python of the sample runs\<close>

lemma sample_python:
  "py_lower sample_chain = ascii_lower" "py_upper sample_chain = ascii_upper"
  "py_float sample_chain = sample_py_float"
  "py_lower slow_env = ascii_lower" "py_upper slow_env = ascii_upper"
  "py_lower quick_env = ascii_lower" "py_upper quick_env = ascii_upper"
  "py_lower rounding_chain = ascii_lower" "py_upper rounding_chain = ascii_upper"
  by (simp_all add: sample_chain_def slow_env_def quick_env_def rounding_chain_def)

lemma ascii_upper_samples:
  "ascii_upper ''sol'' = ''SOL''" "ascii_upper ''SOL'' = ''SOL''"
  "ascii_upper ''USDC'' = ''USDC''" "ascii_upper ''usdt'' = ''USDT''"
  "ascii_upper ''USDT'' = ''USDT''"
  by code_simp+

lemma ascii_lower_samples:
  "ascii_lower ''bob'' = ''bob''" "ascii_lower ''dave'' = ''dave''"
  by code_simp+

lemma normalize_samples:
  "normalize_username sample_chain ''@bob'' = ''bob''"
  "normalize_username sample_chain ''bob'' = ''bob''"
  "normalize_username sample_chain ''dave'' = ''dave''"
  by (simp_all add: normalize_username_def sample_python ascii_lower_samples)

subsection \<open>Claiming a pending wallet\<close>

text \<open>
  C4, at a concrete race. The store holds one unclaimed pending wallet for the handle
  \<open>bob\<close>. Two callers (ids 111 and 222) both read it before either writes. The
  first write binds the document to 111; the second write matches no document and leaves
  the store as it is, but its result is not looked at: both callers return success with
  the address, the plaintext key and the queued notification. Run one after the other,
  the second claim fails.
\<close>

theorem claim_race_both_succeed:
  "claim_read sample_chain (\<lambda>_. 424242) [pending_bob_doc] ''bob''
     = Inr (''BobAddr'', ''BobKey'', [sample_notification])
   \<and> fst (claim_write sample_chain 1 10 [pending_bob_doc] 111 ''bob''
            (''BobAddr'', ''BobKey'', [sample_notification]))
       = Claimed ''BobAddr'' ''BobKey'' [sample_notification]
   \<and> map telegram_id (snd (claim_write sample_chain 1 10 [pending_bob_doc] 111 ''bob''
         (''BobAddr'', ''BobKey'', [sample_notification]))) = [Some 111]
   \<and> claim_write sample_chain 2 11 (snd (claim_write sample_chain 1 10 [pending_bob_doc] 111 ''bob''
         (''BobAddr'', ''BobKey'', [sample_notification]))) 222 ''bob''
         (''BobAddr'', ''BobKey'', [sample_notification])
       = (Claimed ''BobAddr'' ''BobKey'' [sample_notification],
          snd (claim_write sample_chain 1 10 [pending_bob_doc] 111 ''bob''
            (''BobAddr'', ''BobKey'', [sample_notification])))
   \<and> fst (claim_pending_wallet sample_chain (\<lambda>_. 424242) 2 11
          (snd (claim_pending_wallet sample_chain (\<lambda>_. 424242) 1 10 [pending_bob_doc] 111 ''bob''))
          222 ''bob'')
       = ClaimFailed"
  by (simp add: claim_read_def claim_write_def claim_pending_wallet_def find_one_def
      update_one_def normalize_samples truthy_str_def
      decrypt_private_key_def encrypt_private_key_def derive_key_from_telegram_id_def
      pending_bob_doc_def blank_doc_def Let_def)

subsection \<open>Values of the constants\<close>





lemma new_account_fee_value:
  "estimate_network_fee True ''SOL'' = Finite (8263034540377457 / 2 ^ 63)"
  by code_simp

lemma sample_docs:
  "telegram_id alice_doc = Some 7" "telegram_id carol_doc = Some 9"
  "telegram_id bob_doc = Some 8"
  "wallet_address alice_doc = Some ''AliceAddr''" "wallet_address bob_doc = Some ''BobAddr''"
  "wallet_address carol_doc = None"
  "username alice_doc = Some ''alice''" "username bob_doc = Some ''bob''"
  "username carol_doc = Some ''carol''"
  "encrypted_private_key alice_doc = Some (Token (Some 7) 0 ''AliceKey'')"
  by (simp_all add: alice_doc_def carol_doc_def bob_doc_def blank_doc_def)

lemma get_user_alice: "get_user (alice_doc # rest) 7 = Some alice_doc"
  by (simp add: get_user_def find_one_def sample_docs)

lemma get_user_carol: "get_user [alice_doc, carol_doc] 9 = Some carol_doc"
  by (simp add: get_user_def find_one_def sample_docs)

lemma get_key_alice: "get_decrypted_private_key (alice_doc # rest) 7 = Inr (Some ''AliceKey'')"
  by (simp add: get_decrypted_private_key_def get_user_alice sample_docs
      decrypt_private_key_def derive_key_from_telegram_id_def)


lemma get_dave: "get_user_by_username sample_chain [alice_doc] ''dave'' = None"
  "get_user_by_username sample_chain [alice_doc, carol_doc] ''dave'' = None"
  by (simp_all add: get_user_by_username_def find_one_def normalize_samples sample_docs)

subsection \<open>Reported balances\<close>

lemma report_token_not_nan: "report_token t = Some r \<Longrightarrow> rt_balance r \<noteq> NaN"
  by (auto simp: report_token_def py_round_not_nan flt_zero_not_nan
      split: option.splits if_splits)

lemma set_balance_not_nan:
  assumes "rt_balance t \<noteq> NaN"
    and "bal_SOL b \<noteq> NaN \<and> bal_USDC b \<noteq> NaN \<and> bal_USDT b \<noteq> NaN"
  shows "bal_SOL (set_balance net t b) \<noteq> NaN \<and> bal_USDC (set_balance net t b) \<noteq> NaN
       \<and> bal_USDT (set_balance net t b) \<noteq> NaN"
  using assms by (simp add: set_balance_def Let_def)

lemma fold_set_balance_not_nan:
  "(\<And>t. t \<in> set ts \<Longrightarrow> rt_balance t \<noteq> NaN) \<Longrightarrow>
   bal_SOL b \<noteq> NaN \<and> bal_USDC b \<noteq> NaN \<and> bal_USDT b \<noteq> NaN \<Longrightarrow>
   bal_SOL (fold (set_balance net) ts b) \<noteq> NaN
   \<and> bal_USDC (fold (set_balance net) ts b) \<noteq> NaN
   \<and> bal_USDT (fold (set_balance net) ts b) \<noteq> NaN"
proof (induction ts arbitrary: b)
  case Nil
  then show ?case by simp
next
  case (Cons t ts)
  have "bal_SOL (set_balance net t b) \<noteq> NaN \<and> bal_USDC (set_balance net t b) \<noteq> NaN
       \<and> bal_USDT (set_balance net t b) \<noteq> NaN"
    using set_balance_not_nan [of t b net] Cons.prems by simp
  then show ?case
    using Cons.IH [of "set_balance net t b"] Cons.prems(1) by simp
qed

lemma balances_not_nan:
  "bal_SOL (get_wallet_balance_alchemy net a) \<noteq> NaN"
  "bal_USDC (get_wallet_balance_alchemy net a) \<noteq> NaN"
  "bal_USDT (get_wallet_balance_alchemy net a) \<noteq> NaN"
proof -
  have "bal_SOL (get_wallet_balance_alchemy net a) \<noteq> NaN
        \<and> bal_USDC (get_wallet_balance_alchemy net a) \<noteq> NaN
        \<and> bal_USDT (get_wallet_balance_alchemy net a) \<noteq> NaN"
  proof (cases "assets_by_address net a")
    case None
    then show ?thesis
      by (simp add: get_wallet_balance_alchemy_def get_wallet_balance_def)
  next
    case (Some tokens)
    have "\<And>t. t \<in> set (List.map_filter report_token tokens) \<Longrightarrow> rt_balance t \<noteq> NaN"
      by (auto simp: List.map_filter_def report_token_not_nan)
    then show ?thesis
      using Some fold_set_balance_not_nan [of "List.map_filter report_token tokens"
          "\<lparr>bal_SOL = Finite 0, bal_USDC = Finite 0, bal_USDT = Finite 0\<rparr>" net]
      by (simp add: get_wallet_balance_alchemy_def get_wallet_balance_def)
  qed
  then show "bal_SOL (get_wallet_balance_alchemy net a) \<noteq> NaN"
    "bal_USDC (get_wallet_balance_alchemy net a) \<noteq> NaN"
    "bal_USDT (get_wallet_balance_alchemy net a) \<noteq> NaN"
    by simp_all
qed

lemma sample_rounding:
  "py_round (Finite 2) 2 = Finite 2" "py_round (Finite 10) 2 = Finite 10"
  "py_round (Finite 3) 2 = Finite 3"
  by (simp_all add: round_half_even_def) code_simp+

lemma sample_rounding_up: "py_round (Finite (2047 / 1024)) 2 = Finite 2"
  by code_simp

lemma sample_balances:
  "get_wallet_balance_alchemy sample_chain a
     = \<lparr>bal_SOL = Finite 2, bal_USDC = Finite 10, bal_USDT = Finite 3\<rparr>"
  by (simp add: get_wallet_balance_alchemy_def get_wallet_balance_def sample_chain_def
      sample_assets_def List.map_filter_def report_token_def set_balance_def
      ascii_upper_samples sample_rounding del: py_round.simps)

lemma rounded_balances:
  "get_wallet_balance_alchemy rounding_chain a
     = \<lparr>bal_SOL = Finite 2, bal_USDC = Finite 0, bal_USDT = Finite 0\<rparr>"
  using sample_rounding_up
  by (simp add: get_wallet_balance_alchemy_def get_wallet_balance_def rounding_chain_def
      sample_chain_def List.map_filter_def report_token_def set_balance_def
      ascii_upper_samples del: py_round.simps)


subsection \<open>The balance check\<close>

text \<open>
  C6, as the code has it. The check compares the balances that
  \<open>get_wallet_balance_alchemy\<close> reports for the sender's stored address. For a
  sender with a stored wallet, a finite amount and a finite fee, it makes one network
  call, the read of these balances, and succeeds exactly when, for SOL, the reported SOL
  balance is at least the float sum of amount and fee, and for any other token, the
  reported balance of that token (USDC or USDT, and zero for any other symbol) is at
  least the amount and the reported SOL balance is at least the fee; otherwise the error
  is, in this order, the insufficient balance, the insufficient token or the
  insufficient SOL for gas. For a sender without a document or without a stored wallet
  the result is ``Wallet not found'', with no network call.
\<close>

theorem check_payment_balance_iff:
  "(\<forall>user w. get_user db tid = Some user \<and> wallet_address user = Some w \<and> w \<noteq> [] \<longrightarrow>
      check_payment_balance net db tid (Finite a) token (Finite f) =
        ([GetWalletBalance w],
         if token = ''SOL''
         then (if fle (fadd (Finite a) (Finite f)) (bal_SOL (get_wallet_balance_alchemy net w))
               then Inr ()
               else Inl (InsufficientBalance (bal_SOL (get_wallet_balance_alchemy net w))
                           (fadd (Finite a) (Finite f)) (Finite f)))
         else if token = ''USDC''
         then (if \<not> fle (Finite a) (bal_USDC (get_wallet_balance_alchemy net w))
               then Inl (InsufficientToken token (bal_USDC (get_wallet_balance_alchemy net w))
                           (Finite a))
               else if \<not> fle (Finite f) (bal_SOL (get_wallet_balance_alchemy net w))
               then Inl (InsufficientSolForGas (bal_SOL (get_wallet_balance_alchemy net w))
                           (Finite f))
               else Inr ())
         else if token = ''USDT''
         then (if \<not> fle (Finite a) (bal_USDT (get_wallet_balance_alchemy net w))
               then Inl (InsufficientToken token (bal_USDT (get_wallet_balance_alchemy net w))
                           (Finite a))
               else if \<not> fle (Finite f) (bal_SOL (get_wallet_balance_alchemy net w))
               then Inl (InsufficientSolForGas (bal_SOL (get_wallet_balance_alchemy net w))
                           (Finite f))
               else Inr ())
         else (if \<not> fle (Finite a) (Finite 0)
               then Inl (InsufficientToken token (Finite 0) (Finite a))
               else if \<not> fle (Finite f) (bal_SOL (get_wallet_balance_alchemy net w))
               then Inl (InsufficientSolForGas (bal_SOL (get_wallet_balance_alchemy net w))
                           (Finite f))
               else Inr ())))
   \<and> ((case get_user db tid of None \<Rightarrow> True
        | Some user \<Rightarrow> wallet_address user = None \<or> wallet_address user = Some []) \<longrightarrow>
        check_payment_balance net db tid amount token network_fee = ([], Inl WalletNotFound))
   \<and> (\<forall>e. snd (check_payment_balance net db tid amount token network_fee) = Inl e \<longrightarrow>
          e = WalletNotFound \<or> is_insufficient_funds e)"
proof (intro conjI allI impI)
  fix user w
  assume h: "get_user db tid = Some user \<and> wallet_address user = Some w \<and> w \<noteq> []"
  define b where "b = get_wallet_balance_alchemy net w"
  have nn: "bal_SOL b \<noteq> NaN" "bal_USDC b \<noteq> NaN" "bal_USDT b \<noteq> NaN"
    by (simp_all add: b_def balances_not_nan)
  have sum: "fadd (Finite a) (Finite f) \<noteq> NaN"
    by (simp add: fl_round_not_nan)
  have c1: "flt (bal_SOL b) (fadd (Finite a) (Finite f))
              = (\<not> fle (fadd (Finite a) (Finite f)) (bal_SOL b))"
    using flt_not_nan [OF nn(1) sum] .
  have c2: "flt (bal_SOL b) (Finite f) = (\<not> fle (Finite f) (bal_SOL b))"
    using flt_not_nan [OF nn(1)] by simp
  have c3: "flt (bal_USDC b) (Finite a) = (\<not> fle (Finite a) (bal_USDC b))"
    using flt_not_nan [OF nn(2)] by simp
  have c4: "flt (bal_USDT b) (Finite a) = (\<not> fle (Finite a) (bal_USDT b))"
    using flt_not_nan [OF nn(3)] by simp
  have c5: "flt (Finite 0) (Finite a) = (\<not> fle (Finite a) (Finite 0))"
    by auto
  have "check_payment_balance net db tid (Finite a) token (Finite f) =
        ([GetWalletBalance w],
         if token = ''SOL''
         then (if fle (fadd (Finite a) (Finite f)) (bal_SOL b)
               then Inr ()
               else Inl (InsufficientBalance (bal_SOL b) (fadd (Finite a) (Finite f)) (Finite f)))
         else if token = ''USDC''
         then (if \<not> fle (Finite a) (bal_USDC b)
               then Inl (InsufficientToken token (bal_USDC b) (Finite a))
               else if \<not> fle (Finite f) (bal_SOL b)
               then Inl (InsufficientSolForGas (bal_SOL b) (Finite f))
               else Inr ())
         else if token = ''USDT''
         then (if \<not> fle (Finite a) (bal_USDT b)
               then Inl (InsufficientToken token (bal_USDT b) (Finite a))
               else if \<not> fle (Finite f) (bal_SOL b)
               then Inl (InsufficientSolForGas (bal_SOL b) (Finite f))
               else Inr ())
         else (if \<not> fle (Finite a) (Finite 0)
               then Inl (InsufficientToken token (Finite 0) (Finite a))
               else if \<not> fle (Finite f) (bal_SOL b)
               then Inl (InsufficientSolForGas (bal_SOL b) (Finite f))
               else Inr ()))"
    using h c1 c2 c3 c4 c5 b_def [symmetric]
    by (simp add: check_payment_balance_def Let_def truthy_str_def balances_get_def
        del: fadd.simps flt.simps fle.simps)
  then show "check_payment_balance net db tid (Finite a) token (Finite f) =
        ([GetWalletBalance w],
         if token = ''SOL''
         then (if fle (fadd (Finite a) (Finite f)) (bal_SOL (get_wallet_balance_alchemy net w))
               then Inr ()
               else Inl (InsufficientBalance (bal_SOL (get_wallet_balance_alchemy net w))
                           (fadd (Finite a) (Finite f)) (Finite f)))
         else if token = ''USDC''
         then (if \<not> fle (Finite a) (bal_USDC (get_wallet_balance_alchemy net w))
               then Inl (InsufficientToken token (bal_USDC (get_wallet_balance_alchemy net w))
                           (Finite a))
               else if \<not> fle (Finite f) (bal_SOL (get_wallet_balance_alchemy net w))
               then Inl (InsufficientSolForGas (bal_SOL (get_wallet_balance_alchemy net w))
                           (Finite f))
               else Inr ())
         else if token = ''USDT''
         then (if \<not> fle (Finite a) (bal_USDT (get_wallet_balance_alchemy net w))
               then Inl (InsufficientToken token (bal_USDT (get_wallet_balance_alchemy net w))
                           (Finite a))
               else if \<not> fle (Finite f) (bal_SOL (get_wallet_balance_alchemy net w))
               then Inl (InsufficientSolForGas (bal_SOL (get_wallet_balance_alchemy net w))
                           (Finite f))
               else Inr ())
         else (if \<not> fle (Finite a) (Finite 0)
               then Inl (InsufficientToken token (Finite 0) (Finite a))
               else if \<not> fle (Finite f) (bal_SOL (get_wallet_balance_alchemy net w))
               then Inl (InsufficientSolForGas (bal_SOL (get_wallet_balance_alchemy net w))
                           (Finite f))
               else Inr ()))"
    by (simp only: b_def)
next
  assume "case get_user db tid of None \<Rightarrow> True
          | Some user \<Rightarrow> wallet_address user = None \<or> wallet_address user = Some []"
  then show "check_payment_balance net db tid amount token network_fee = ([], Inl WalletNotFound)"
    by (auto simp: check_payment_balance_def truthy_str_def split: option.splits)
next
  fix e
  assume "snd (check_payment_balance net db tid amount token network_fee) = Inl e"
  then show "e = WalletNotFound \<or> is_insufficient_funds e"
    by (auto simp: check_payment_balance_def Let_def split: option.splits if_splits)
qed

lemma sample_sums:
  "fadd (Finite 1) (Finite (1 / 2)) = Finite (3 / 2)"
  "fadd (Finite 2) (Finite (1 / 2)) = Finite (5 / 2)"
  "fadd (Finite (4095 / 2048)) (Finite (1 / 4096)) = Finite (8191 / 4096)"
  by code_simp+

theorem check_payment_balance_iff_witness:
  "check_payment_balance sample_chain [alice_doc] 7 (Finite 1) ''SOL'' (Finite (1 / 2))
     = ([GetWalletBalance ''AliceAddr''], Inr ())
   \<and> check_payment_balance sample_chain [alice_doc] 7 (Finite 2) ''SOL'' (Finite (1 / 2))
     = ([GetWalletBalance ''AliceAddr''],
        Inl (InsufficientBalance (Finite 2) (Finite (5 / 2)) (Finite (1 / 2))))
   \<and> check_payment_balance sample_chain [alice_doc] 7 (Finite 10) ''USDC'' (Finite (1 / 2))
     = ([GetWalletBalance ''AliceAddr''], Inr ())
   \<and> check_payment_balance sample_chain [alice_doc] 7 (Finite 11) ''USDC'' (Finite (1 / 2))
     = ([GetWalletBalance ''AliceAddr''], Inl (InsufficientToken ''USDC'' (Finite 10) (Finite 11)))
   \<and> check_payment_balance sample_chain [alice_doc] 7 (Finite 3) ''USDT'' (Finite (1 / 2))
     = ([GetWalletBalance ''AliceAddr''], Inr ())
   \<and> check_payment_balance sample_chain [alice_doc] 7 (Finite 4) ''USDT'' (Finite (1 / 2))
     = ([GetWalletBalance ''AliceAddr''], Inl (InsufficientToken ''USDT'' (Finite 3) (Finite 4)))
   \<and> check_payment_balance sample_chain [alice_doc] 7 (Finite 3) ''USDT'' (Finite (5 / 2))
     = ([GetWalletBalance ''AliceAddr''], Inl (InsufficientSolForGas (Finite 2) (Finite (5 / 2))))
   \<and> check_payment_balance sample_chain [alice_doc, carol_doc] 9 (Finite 1) ''SOL'' (Finite (1 / 2))
     = ([], Inl WalletNotFound)"
proof -
  have w: "get_user [alice_doc] 7 = Some alice_doc \<and> wallet_address alice_doc = Some ''AliceAddr''
           \<and> ''AliceAddr'' \<noteq> []"
    by (simp add: get_user_alice sample_docs)
  have c: "case get_user [alice_doc, carol_doc] 9 of None \<Rightarrow> True
           | Some user \<Rightarrow> wallet_address user = None \<or> wallet_address user = Some []"
    by (simp add: get_user_carol sample_docs)
  have r1: "check_payment_balance sample_chain [alice_doc] 7 (Finite 1) ''SOL'' (Finite (1 / 2))
     = ([GetWalletBalance ''AliceAddr''], Inr ())"
    using check_payment_balance_iff [of "[alice_doc]" 7 sample_chain 1 "''SOL''" "1 / 2"] w
      sample_sums
    by (simp add: sample_balances del: fadd.simps)
  have r2: "check_payment_balance sample_chain [alice_doc] 7 (Finite 2) ''SOL'' (Finite (1 / 2))
     = ([GetWalletBalance ''AliceAddr''],
        Inl (InsufficientBalance (Finite 2) (Finite (5 / 2)) (Finite (1 / 2))))"
    using check_payment_balance_iff [of "[alice_doc]" 7 sample_chain 2 "''SOL''" "1 / 2"] w
      sample_sums
    by (simp add: sample_balances del: fadd.simps)
  have r3: "check_payment_balance sample_chain [alice_doc] 7 (Finite 10) ''USDC'' (Finite (1 / 2))
     = ([GetWalletBalance ''AliceAddr''], Inr ())"
    using check_payment_balance_iff [of "[alice_doc]" 7 sample_chain 10 "''USDC''" "1 / 2"] w
    by (simp add: sample_balances)
  have r4: "check_payment_balance sample_chain [alice_doc] 7 (Finite 11) ''USDC'' (Finite (1 / 2))
     = ([GetWalletBalance ''AliceAddr''], Inl (InsufficientToken ''USDC'' (Finite 10) (Finite 11)))"
    using check_payment_balance_iff [of "[alice_doc]" 7 sample_chain 11 "''USDC''" "1 / 2"] w
    by (simp add: sample_balances)
  have r5: "check_payment_balance sample_chain [alice_doc] 7 (Finite 3) ''USDT'' (Finite (1 / 2))
     = ([GetWalletBalance ''AliceAddr''], Inr ())"
    using check_payment_balance_iff [of "[alice_doc]" 7 sample_chain 3 "''USDT''" "1 / 2"] w
    by (simp add: sample_balances)
  have r6: "check_payment_balance sample_chain [alice_doc] 7 (Finite 4) ''USDT'' (Finite (1 / 2))
     = ([GetWalletBalance ''AliceAddr''], Inl (InsufficientToken ''USDT'' (Finite 3) (Finite 4)))"
    using check_payment_balance_iff [of "[alice_doc]" 7 sample_chain 4 "''USDT''" "1 / 2"] w
    by (simp add: sample_balances)
  have r7: "check_payment_balance sample_chain [alice_doc] 7 (Finite 3) ''USDT'' (Finite (5 / 2))
     = ([GetWalletBalance ''AliceAddr''], Inl (InsufficientSolForGas (Finite 2) (Finite (5 / 2))))"
    using check_payment_balance_iff [of "[alice_doc]" 7 sample_chain 3 "''USDT''" "5 / 2"] w
    by (simp add: sample_balances)
  have r8: "check_payment_balance sample_chain [alice_doc, carol_doc] 9 (Finite 1) ''SOL'' (Finite (1 / 2))
     = ([], Inl WalletNotFound)"
    using check_payment_balance_iff [of "[alice_doc, carol_doc]" 9 sample_chain _ "''SOL''" _
        "Finite 1" "Finite (1 / 2)"] c
    by simp
  show ?thesis
    using r1 r2 r3 r4 r5 r6 r7 r8 by simp
qed

text \<open>
  C6 as the specification words it does not hold for every sender, amount and fee. A
  NaN amount (\<^verbatim>\<open>float('nan')\<close> passes the validation of the preview) makes every
  comparison false, and the check passes although the balance is not at least the sum. A
  sender without a stored wallet gets ``Wallet not found'', which is no insufficient-funds
  error. And the balance compared is the rounded one: an account that holds
  \<open>2047 / 1024 = 1.9990234375\<close> SOL is reported with \<open>2.0\<close>, so that a payment
  of \<open>4095 / 2048\<close> with fee \<open>1 / 4096\<close>, a sum of \<open>1.999755859375\<close>,
  passes the check above the balance of the account.
\<close>

theorem check_payment_balance_counterexample:
  "check_payment_balance sample_chain [alice_doc] 7 NaN ''SOL'' (Finite (1 / 2))
     = ([GetWalletBalance ''AliceAddr''], Inr ())
   \<and> bal_SOL (get_wallet_balance_alchemy sample_chain ''AliceAddr'') = Finite 2
   \<and> \<not> fle (fadd NaN (Finite (1 / 2))) (Finite 2)
   \<and> (\<exists>pd. send_payment sample_chain [alice_doc] 7 ''dave'' ''nan'' ''SOL''
              = ([GetWalletBalance ''AliceAddr''], Inr pd) \<and> pd_amount pd = NaN)
   \<and> check_payment_balance sample_chain [alice_doc, carol_doc] 9 (Finite 1) ''SOL'' (Finite (1 / 2))
       = ([], Inl WalletNotFound)
   \<and> \<not> is_insufficient_funds WalletNotFound
   \<and> assets_by_address rounding_chain ''AliceAddr''
       = Some [\<lparr>at_native = True, at_symbol = None, at_balance = Some (Finite (2047 / 1024))\<rparr>]
   \<and> check_payment_balance rounding_chain [alice_doc] 7 (Finite (4095 / 2048)) ''SOL''
         (Finite (1 / 4096))
       = ([GetWalletBalance ''AliceAddr''], Inr ())
   \<and> \<not> fle (fadd (Finite (4095 / 2048)) (Finite (1 / 4096))) (Finite (2047 / 1024))"
proof -
  have n1: "check_payment_balance sample_chain [alice_doc] 7 NaN ''SOL'' (Finite (1 / 2))
     = ([GetWalletBalance ''AliceAddr''], Inr ())"
    by (simp add: check_payment_balance_def get_user_alice sample_docs truthy_str_def Let_def
        sample_balances balances_get_def)
  have n2: "bal_SOL (get_wallet_balance_alchemy sample_chain ''AliceAddr'') = Finite 2"
    by (simp add: sample_balances)
  have n3: "\<not> fle (fadd NaN (Finite (1 / 2))) (Finite 2)"
    by simp
  have chk: "check_payment_balance sample_chain [alice_doc] 7 NaN ''SOL''
               (estimate_network_fee True ''SOL'') = ([GetWalletBalance ''AliceAddr''], Inr ())"
    by (simp add: check_payment_balance_def get_user_alice sample_docs truthy_str_def Let_def
        sample_balances balances_get_def new_account_fee_value)
  have n4: "\<exists>pd. send_payment sample_chain [alice_doc] 7 ''dave'' ''nan'' ''SOL''
              = ([GetWalletBalance ''AliceAddr''], Inr pd) \<and> pd_amount pd = NaN"
    by (simp add: send_payment_def sample_python ascii_upper_samples normalize_samples
        sample_py_float_def SUPPORTED_PAYMENT_TOKENS_def get_user_alice sample_docs
        truthy_str_def get_dave recipient_state_def chk Let_def)
  have n5: "check_payment_balance sample_chain [alice_doc, carol_doc] 9 (Finite 1) ''SOL'' (Finite (1 / 2))
       = ([], Inl WalletNotFound)"
    by (simp add: check_payment_balance_def get_user_carol sample_docs truthy_str_def)
  have n7: "assets_by_address rounding_chain ''AliceAddr''
       = Some [\<lparr>at_native = True, at_symbol = None, at_balance = Some (Finite (2047 / 1024))\<rparr>]"
    by (simp add: rounding_chain_def)
  have n8: "check_payment_balance rounding_chain [alice_doc] 7 (Finite (4095 / 2048)) ''SOL''
         (Finite (1 / 4096))
       = ([GetWalletBalance ''AliceAddr''], Inr ())"
    using sample_sums(3)
    by (simp add: check_payment_balance_def get_user_alice sample_docs truthy_str_def Let_def
        rounded_balances balances_get_def del: fadd.simps)
  have n9: "\<not> fle (fadd (Finite (4095 / 2048)) (Finite (1 / 4096))) (Finite (2047 / 1024))"
    using sample_sums(3) by (simp del: fadd.simps)
  show ?thesis
    using n1 n2 n3 n4 n5 n7 n8 n9 by simp
qed

subsection \<open>The preview\<close>






subsection \<open>Payment execution\<close>

lemma map_update_first:
  "(\<And>d. g (f d) = g d) \<Longrightarrow> map g (update_first p f c) = map g c"
  by (induction c) auto

lemma map_update_one:
  "(\<And>d. g (f d) = g d) \<Longrightarrow> map g (snd (update_one p f c)) = map g c"
  by (simp add: update_one_def map_update_first split: option.splits)

lemma activate_keeps_ledger:
  "ledger (snd (activate_pending_wallet now db tid a k)) = ledger db"
  "stored_notifications (snd (activate_pending_wallet now db tid a k)) = stored_notifications db"
  by (simp_all add: activate_pending_wallet_def ledger_def stored_notifications_def
      map_update_one split_beta Let_def)

lemma poll_all_pending:
  "(\<And>k. status k = st_pending) \<Longrightarrow> poll_confirmation status ks = (length ks, Unconfirmed)"
  by (induction ks) auto

text \<open>
  What the execution does hold of the second claim: an error result leaves every ledger
  and every notification list as it was, a successful result carries a signature whose
  poll was confirmed, and an execution that polled without reaching confirmation ends in
  the on-chain failure or the timeout error.
\<close>

lemma execute_error_keeps_ledger:
  assumes "execute_payment_secure env db sender pd = (calls, db', Inl e)"
  shows "ledger db' = ledger db \<and> stored_notifications db' = stored_notifications db"
  using assms
  by (auto simp: execute_payment_secure_def Let_def activate_keeps_ledger
      split: sum.splits option.splits if_splits prod.splits poll_outcome.splits)

lemma execute_success_confirmed:
  assumes "execute_payment_secure env db sender pd = (calls, db', Inr r)"
  shows "snd (poll_confirmation (get_transaction_status env (pr_signature r)) [0..<30]) = Confirmed"
  using assms
  by (auto simp: execute_payment_secure_def Let_def
      split: sum.splits option.splits if_splits prod.splits poll_outcome.splits)

lemma execute_polled_unconfirmed:
  assumes "execute_payment_secure env db sender pd = (calls, db', x)"
    and "GetTransactionStatus sig \<in> set calls"
    and "snd (poll_confirmation (get_transaction_status env sig) [0..<30]) \<noteq> Confirmed"
  shows "x = Inl FailedOnBlockchain \<or> x = Inl ConfirmationTimeout"
  using assms
  by (auto simp: execute_payment_secure_def Let_def
      split: sum.splits option.splits if_splits prod.splits poll_outcome.splits)

lemma execute_new_user_timeout:
  "execute_payment_secure slow_env (alice_doc # rest) 7 pay_new_user
     = (ExecuteTransfer ''SOL'' (Some ''NewAddr'') (Finite 1)
          # replicate 30 (GetTransactionStatus ''sig1''),
        alice_doc # rest, Inl ConfirmationTimeout)"
  by (simp add: execute_payment_secure_def get_key_alice get_user_alice Let_def
      slow_env_def pay_new_user_def poll_all_pending)

text \<open>
  C1, at a concrete payment. Alice (id 7) pays 1 SOL to the handle \<open>dave\<close>, which has
  no document; the network accepts the transfer and never confirms it. The transfer to
  the fresh address \<open>NewAddr\<close> is submitted while the collection holds no document
  for the handle, and after the timeout the collection is still the one before the
  payment: the key of \<open>NewAddr\<close> was never stored. For a registered recipient without
  a wallet (\<open>carol\<close>, id 9) the same run stores the wallet before the transfer is
  submitted: it is in the collection although the payment timed out.
\<close>

theorem new_user_wallet_not_stored_before_transfer:
  "execute_payment_secure slow_env [alice_doc] 7 pay_new_user
     = (ExecuteTransfer ''SOL'' (Some ''NewAddr'') (Finite 1)
          # replicate 30 (GetTransactionStatus ''sig1''),
        [alice_doc], Inl ConfirmationTimeout)
   \<and> execute_payment_secure slow_env [alice_doc, carol_doc] 7 pay_carol
     = (ExecuteTransfer ''SOL'' (Some ''NewAddr'') (Finite 1)
          # replicate 30 (GetTransactionStatus ''sig1''),
        [alice_doc,
         carol_doc\<lparr>wallet_address := Some ''NewAddr'',
                   encrypted_private_key := Some (Token (Some 9) 5 ''NewKey''),
                   wallet_type := Some ''auto_created'',
                   wallet_created_at := Some 20, last_updated := Some 20,
                   pending_wallet_address := None, pending_private_key := None\<rparr>],
        Inl ConfirmationTimeout)"
  by (simp add: execute_payment_secure_def get_key_alice get_user_alice Let_def
      slow_env_def pay_carol_def pay_new_user_def poll_all_pending activate_pending_wallet_def
      update_one_def sample_docs encrypt_private_key_def derive_key_from_telegram_id_def)

subsection \<open>The confirmation callback\<close>

lemma reply_only_chat:
  "reply chat st t = Some st' \<Longrightarrow>
     bs_db st' = bs_db st \<and> bs_net_log st' = bs_net_log st \<and> bs_pending st' = bs_pending st
     \<and> (bs_chat_log st' = bs_chat_log st @ [EditMessage t]
        \<or> bs_chat_log st' = bs_chat_log st @ [SendMessage t])"
  by (auto simp: reply_def split: if_splits)

lemma reply_accepted:
  "chat (EditMessage t) \<or> chat (SendMessage t) \<Longrightarrow> \<exists>st'. reply chat st t = Some st'"
  by (auto simp: reply_def)

text \<open>A callback whose payment id is not pending changes nothing but the chat.\<close>

lemma handler_unknown_id:
  assumes "split_on CHR ''_'' data = [p0, action, pid]" and "bs_pending st pid = None"
  shows "bs_db (fst (payment_callback_handler env chat st data u g)) = bs_db st
       \<and> bs_net_log (fst (payment_callback_handler env chat st data u g)) = bs_net_log st
       \<and> bs_pending (fst (payment_callback_handler env chat st data u g)) = bs_pending st
       \<and> (\<exists>t. t \<in> {PaymentExpired, PaymentFailedDueToError}
             \<and> bs_chat_log (fst (payment_callback_handler env chat st data u g))
                 \<in> {bs_chat_log st, bs_chat_log st @ [EditMessage t],
                     bs_chat_log st @ [SendMessage t]})"
  using assms
  by (auto simp: payment_callback_handler_def callback_body_def Let_def reply_def
      split: option.splits if_splits)

text \<open>
  When the execution ends in an error and the chat takes the report of it, the entry is
  removed from \<open>pending_payments\<close>.
\<close>

lemma reported_failure_closes_payment:
  assumes "bs_pending st pid = Some info" and "pi_telegram_id info = from_user"
    and "pi_payment_data info = Some pd"
    and "split_on CHR ''_'' data = [p0, action, pid]" and "action \<noteq> ''cancel''"
    and "chat (EditMessage ProcessingPayment) \<or> chat (SendMessage ProcessingPayment)"
    and "execute_payment_secure env (bs_db st) from_user pd = (calls, db', Inl e)"
    and "chat (EditMessage (PaymentFailed e)) \<or> chat (SendMessage (PaymentFailed e))"
  shows "\<exists>st'. payment_callback_handler env chat st data from_user is_group = (st', Returned)
             \<and> bs_db st' = db'
             \<and> bs_net_log st' = bs_net_log st @ calls
             \<and> bs_pending st' = (bs_pending st)(pid := None)"
proof -
  obtain st1 where st1: "reply chat st ProcessingPayment = Some st1"
    using reply_accepted [OF assms(6)] by blast
  note k1 = reply_only_chat [OF st1]
  define st2 where "st2 = st1\<lparr>bs_db := db', bs_net_log := bs_net_log st1 @ calls\<rparr>"
  obtain st3 where st3: "reply chat st2 (PaymentFailed e) = Some st3"
    using reply_accepted [OF assms(8)] by blast
  note k3 = reply_only_chat [OF st3]
  define st' where "st' = st3\<lparr>bs_pending := (bs_pending st3)(pid := None)\<rparr>"
  have body: "callback_body env chat st data from_user is_group = (st', False)"
    using assms(1-5,7) st1 st3 k1
    by (simp add: callback_body_def Let_def st2_def st'_def)
  have run: "payment_callback_handler env chat st data from_user is_group = (st', Returned)"
    by (simp add: payment_callback_handler_def body)
  have fields: "bs_db st' = db'" "bs_net_log st' = bs_net_log st @ calls"
    "bs_pending st' = (bs_pending st)(pid := None)"
    using k1 k3 by (simp_all add: st'_def st2_def)
  show ?thesis
    using run fields by (intro exI [of _ st']) simp
qed

lemma split_sample: "split_on CHR ''_'' ''pay_confirm_ab12cd34'' = [''pay'', ''confirm'', ''ab12cd34'']"
  by simp

lemma refused_report_run:
  "payment_callback_handler slow_env refusing_chat
       \<lparr>bs_pending = [''ab12cd34'' \<mapsto> \<lparr>pi_telegram_id = 7, pi_payment_data = Some pay_new_user\<rparr>],
        bs_db = [alice_doc], bs_net_log = calls0, bs_chat_log = msgs\<rparr>
       ''pay_confirm_ab12cd34'' 7 False
     = (\<lparr>bs_pending = [''ab12cd34'' \<mapsto> \<lparr>pi_telegram_id = 7, pi_payment_data = Some pay_new_user\<rparr>],
         bs_db = [alice_doc],
         bs_net_log = calls0 @ ExecuteTransfer ''SOL'' (Some ''NewAddr'') (Finite 1)
                        # replicate 30 (GetTransactionStatus ''sig1''),
         bs_chat_log = msgs @ [EditMessage ProcessingPayment, EditMessage PaymentFailedDueToError]\<rparr>,
        Returned)"
  by (simp add: payment_callback_handler_def callback_body_def Let_def reply_def
      refusing_chat_def split_sample execute_new_user_timeout)

text \<open>
  C2, at a concrete run. Alice confirms the pending payment \<open>ab12cd34\<close> of 1 SOL to
  the handle \<open>dave\<close>; the transfer is submitted and not confirmed within the 30 polls.
  The chat refuses the report of the timeout, edited and sent (as when the messaging API
  cannot be reached for these two calls): the exception leaves the body before its last
  statement, the one that deletes the entry, and the handler answers ``Payment failed
  due to an error. Please try again.'' The payment is still pending. A second press of
  the same button is not rejected: the payment is executed again, and the log of the
  network holds two submitted transfers.
\<close>

theorem refused_report_leaves_payment_pending:
  "payment_callback_handler slow_env refusing_chat waiting_state ''pay_confirm_ab12cd34'' 7 False
     = (waiting_state\<lparr>bs_net_log := ExecuteTransfer ''SOL'' (Some ''NewAddr'') (Finite 1)
                                      # replicate 30 (GetTransactionStatus ''sig1''),
                      bs_chat_log := [EditMessage ProcessingPayment,
                                      EditMessage PaymentFailedDueToError]\<rparr>, Returned)
   \<and> bs_pending (fst (payment_callback_handler slow_env refusing_chat waiting_state
                        ''pay_confirm_ab12cd34'' 7 False)) ''ab12cd34''
       = Some \<lparr>pi_telegram_id = 7, pi_payment_data = Some pay_new_user\<rparr>
   \<and> filter is_transfer (bs_net_log (fst (payment_callback_handler slow_env refusing_chat
        (fst (payment_callback_handler slow_env refusing_chat waiting_state
                ''pay_confirm_ab12cd34'' 7 False))
        ''pay_confirm_ab12cd34'' 7 False)))
       = [ExecuteTransfer ''SOL'' (Some ''NewAddr'') (Finite 1),
          ExecuteTransfer ''SOL'' (Some ''NewAddr'') (Finite 1)]
   \<and> bs_db (fst (payment_callback_handler slow_env refusing_chat
        (fst (payment_callback_handler slow_env refusing_chat waiting_state
                ''pay_confirm_ab12cd34'' 7 False))
        ''pay_confirm_ab12cd34'' 7 False)) = [alice_doc]"
  by (simp add: waiting_state_def refused_report_run)

subsection \<open>The live balance of an active recipient\<close>














subsection \<open>Wallet import\<close>

text \<open>
  C10. \<open>import_from_private_key\<close> returns a result for every string: each exception
  of the source is caught and is one of the failure results. It succeeds only if the
  stripped string decodes to exactly 64 bytes, by \<open>b58decode\<close> or, when that raises,
  by \<open>fromhex\<close>. A string that neither decodes gives the format failure; a string
  that \<open>b58decode\<close> reads as other than 64 bytes gives the length failure, and so
  does one that only \<open>fromhex\<close> reads, as other than 64 bytes. A failure result
  carries no address and no key. A 64-byte decoding succeeds exactly when the key pair
  can be built from it. The function has no access to the collection.
\<close>

theorem import_from_private_key_safe:
  "((\<exists>address key. import_from_private_key lib s = Imported address key) \<longrightarrow>
      (\<exists>decoded. length decoded = 64
         \<and> (b58decode lib (py_strip lib s) = Some decoded
            \<or> (b58decode lib (py_strip lib s) = None
               \<and> fromhex lib (py_strip lib s) = Some decoded))))
   \<and> (b58decode lib (py_strip lib s) = None \<and> fromhex lib (py_strip lib s) = None \<longrightarrow>
        import_from_private_key lib s = ImportError InvalidPrivateKeyFormat)
   \<and> (\<forall>decoded. b58decode lib (py_strip lib s) = Some decoded \<and> length decoded \<noteq> 64 \<longrightarrow>
        import_from_private_key lib s = ImportError InvalidPrivateKeyLength)
   \<and> (\<forall>decoded. b58decode lib (py_strip lib s) = None
          \<and> fromhex lib (py_strip lib s) = Some decoded \<and> length decoded \<noteq> 64 \<longrightarrow>
        import_from_private_key lib s = ImportError InvalidPrivateKeyLength)
   \<and> (\<forall>decoded. length decoded = 64
          \<and> (b58decode lib (py_strip lib s) = Some decoded
             \<or> (b58decode lib (py_strip lib s) = None
                \<and> fromhex lib (py_strip lib s) = Some decoded)) \<longrightarrow>
        import_from_private_key lib s =
          (case keypair_address lib decoded of
             None \<Rightarrow> ImportError ImportFailed
           | Some public_key \<Rightarrow>
               Imported public_key
                 (if 64 < py_len lib (py_strip lib s) then py_strip lib s
                  else b58encode lib decoded)))"
  by (auto simp: import_from_private_key_def Let_def split: option.splits if_splits)

lemma toy_strip:
  "py_strip toy_codec '' good '' = ''good''" "py_strip toy_codec ''bad'' = ''bad''"
  "py_strip toy_codec ''short'' = ''short''" "py_strip toy_codec ''cafe'' = ''cafe''"
  "py_strip toy_codec ''00ff'' = ''00ff''" "py_strip toy_codec ''0f'' = ''0f''"
  by (simp_all add: toy_codec_def ascii_strip_def)

lemma toy_decode:
  "b58decode toy_codec ''good'' = Some (replicate 64 0)"
  "b58decode toy_codec ''bad'' = None" "fromhex toy_codec ''bad'' = None"
  "b58decode toy_codec ''short'' = Some [1, 2, 3]"
  "b58decode toy_codec ''cafe'' = Some [1, 2, 3]"
  "fromhex toy_codec ''cafe'' = Some (replicate 64 255)"
  "b58decode toy_codec ''00ff'' = None" "fromhex toy_codec ''00ff'' = Some (replicate 64 255)"
  "b58decode toy_codec ''0f'' = None" "fromhex toy_codec ''0f'' = Some [15]"
  by (simp_all add: toy_codec_def)

lemma toy_keypair:
  "keypair_address toy_codec (replicate 64 0) = Some ''ZeroAddr''"
  "keypair_address toy_codec (replicate 64 255) = Some ''FullAddr''"
  "b58encode toy_codec b = ''encoded''" "py_len toy_codec x = length x"
  by (simp_all add: toy_codec_def)

theorem import_from_private_key_safe_witness:
  "import_from_private_key toy_codec '' good '' = Imported ''ZeroAddr'' ''encoded''
   \<and> import_from_private_key toy_codec ''00ff'' = Imported ''FullAddr'' ''encoded''
   \<and> import_from_private_key toy_codec ''bad'' = ImportError InvalidPrivateKeyFormat
   \<and> import_from_private_key toy_codec ''short'' = ImportError InvalidPrivateKeyLength
   \<and> import_from_private_key toy_codec ''cafe'' = ImportError InvalidPrivateKeyLength
   \<and> import_from_private_key toy_codec ''0f'' = ImportError InvalidPrivateKeyLength
   \<and> (\<exists>decoded. length decoded = 64
         \<and> (b58decode toy_codec (py_strip toy_codec '' good '') = Some decoded
            \<or> (b58decode toy_codec (py_strip toy_codec '' good '') = None
               \<and> fromhex toy_codec (py_strip toy_codec '' good '') = Some decoded)))"
proof -
  have l: "length (replicate 64 (0::nat)) = 64" "length (replicate 64 (255::nat)) = 64"
    "length [1::nat, 2, 3] \<noteq> 64" "length [15::nat] \<noteq> 64"
    by simp_all
  have good: "import_from_private_key toy_codec '' good '' = Imported ''ZeroAddr'' ''encoded''"
    using import_from_private_key_safe [of toy_codec "'' good ''"] l(1)
    by (simp add: toy_strip toy_decode toy_keypair del: replicate.simps replicate_Suc)
  have hex: "import_from_private_key toy_codec ''00ff'' = Imported ''FullAddr'' ''encoded''"
    using import_from_private_key_safe [of toy_codec "''00ff''"] l(2)
    by (simp add: toy_strip toy_decode toy_keypair del: replicate.simps replicate_Suc)
  have bad: "import_from_private_key toy_codec ''bad'' = ImportError InvalidPrivateKeyFormat"
    using import_from_private_key_safe [of toy_codec "''bad''"]
    by (simp add: toy_strip toy_decode)
  have short: "import_from_private_key toy_codec ''short'' = ImportError InvalidPrivateKeyLength"
    using import_from_private_key_safe [of toy_codec "''short''"] l(3)
    by (simp add: toy_strip toy_decode)
  have cafe: "import_from_private_key toy_codec ''cafe'' = ImportError InvalidPrivateKeyLength"
    using import_from_private_key_safe [of toy_codec "''cafe''"] l(3)
    by (simp add: toy_strip toy_decode)
  have of: "import_from_private_key toy_codec ''0f'' = ImportError InvalidPrivateKeyLength"
    using import_from_private_key_safe [of toy_codec "''0f''"] l(4)
    by (simp add: toy_strip toy_decode)
  have ex: "\<exists>decoded. length decoded = 64
         \<and> (b58decode toy_codec (py_strip toy_codec '' good '') = Some decoded
            \<or> (b58decode toy_codec (py_strip toy_codec '' good '') = None
               \<and> fromhex toy_codec (py_strip toy_codec '' good '') = Some decoded))"
    using import_from_private_key_safe [of toy_codec "'' good ''"] good by blast
  show ?thesis
    using good hex bad short cafe of ex by blast
qed

end
